theory Spec2Isabelle
  imports Main
begin

section \<open>Data model\<close>

text \<open>
  Values of the orchestration layer of \<^verbatim>\<open>src/services/api/modelApiManager.ts\<close> and of the
  provider registry (\<^verbatim>\<open>config/modelsLoader.ts\<close>, \<^verbatim>\<open>services/model/modelManager.ts\<close>).
  JavaScript strings are byte strings here; the non-ASCII literals of the source are written as
  their UTF-8 bytes. JavaScript numbers are integers (\<open>NaN\<close> and fractions are left out).
  An optional property is an \<open>option\<close>; \<open>undefined\<close> is \<open>None\<close>.
\<close>

text \<open>A thrown value: an \<open>Error\<close> instance with its message, or anything else.\<close>

datatype thrown = Error string | NonError

text \<open>\<^verbatim>\<open>StandardResponse\<close> of \<^verbatim>\<open>baseService.ts\<close>; the field \<^verbatim>\<open>text\<close> is \<open>textPayload\<close>.\<close>

record StandardResponse =
  success :: bool
  message :: "string option"
  imageUrl :: "string option"
  error :: "string option"
  textPayload :: "string option"
  createdAt :: "string option"

text \<open>\<^verbatim>\<open>UploadResult\<close> of the storage service: \<^verbatim>\<open>{success, url?, error?}\<close>.\<close>

record UploadResult =
  upload_success :: bool
  upload_url :: "string option"
  upload_error :: "string option"

text \<open>\<^verbatim>\<open>GroupConfig\<close>, \<^verbatim>\<open>ImageModel\<close> and \<^verbatim>\<open>ModelsConfig\<close> of \<^verbatim>\<open>models.types\<close>. A group is the
  string found at run time (the type \<^verbatim>\<open>ModelGroupType\<close> is erased and the JSON file is cast).
  Of a model only the fields read by the dispatcher are kept.\<close>

record GroupConfig =
  maxConcurrent :: int
  cooldownMs :: int

record ImageModel =
  model_id :: string
  category :: string
  model_group :: string

record ModelsConfig =
  configs :: "string \<rightharpoonup> GroupConfig"
  models :: "ImageModel list"

text \<open>The per-provider credentials \<^verbatim>\<open>ModelConfig\<close> handed in by the caller
  (\<^verbatim>\<open>config_json?.api_key\<close>, \<^verbatim>\<open>api_secret\<close>, \<^verbatim>\<open>ark_api_key\<close>).\<close>

record ConfigJson =
  api_key :: "string option"
  api_secret :: "string option"
  ark_api_key :: "string option"

record ModelConfig =
  config_json :: "ConfigJson option"

text \<open>The request of the service methods: \<^verbatim>\<open>GPT4oServiceRequest\<close> has no \<^verbatim>\<open>model\<close>,
  \<^verbatim>\<open>DoubaoServiceRequest\<close> has one.\<close>

record ServiceRequest =
  prompt :: string
  model :: "string option"
  count :: "int option"

record Metadata =
  totalRequested :: int
  successful :: int
  failed :: int

record GenerationResponse =
  results :: "StandardResponse list"
  metadata :: "Metadata option"

text \<open>The admission ledger: the two \<^verbatim>\<open>Map\<close>s of the singleton.\<close>

record Ledger =
  activeRequests :: "string \<rightharpoonup> int"
  lastRequestTime :: "string \<rightharpoonup> int"

text \<open>
  What the outside world answers while one item of a batch is processed:
  \<^item> \<open>checkAuth\<close>: the value of \<^verbatim>\<open>authMiddleware.checkAuth()\<close> (line 122);
  \<^item> \<open>nows k\<close>: the reading of \<^verbatim>\<open>Date.now()\<close> in round \<open>k\<close> of the polling loop (line 103);
  \<^item> \<open>startNow\<close>: the reading of \<^verbatim>\<open>Date.now()\<close> at line 131;
  \<^item> \<open>gpt4o_generateImage key prompt\<close>, \<open>doubao_generateImage key secret ark prompt model\<close>:
    how the provider call settles, \<open>Inl\<close> a thrown value, \<open>Inr\<close> the response;
  \<^item> \<open>uploadImageFromUrl url\<close>: how the storage call settles;
  \<^item> \<open>toISOString\<close>, \<open>toISOString_catch\<close>: \<^verbatim>\<open>new Date().toISOString()\<close> in the \<^verbatim>\<open>try\<close>
    block and in the \<^verbatim>\<open>catch\<close> block of the batch loop.
  The provider call and the storage call are taken to settle. The class \<^verbatim>\<open>AuthMiddleware\<close> is
  not among the sources at hand; \<^verbatim>\<open>checkAuth()\<close> is taken to resolve with a boolean, as the
  test of line 123 reads it.
\<close>

record item_env =
  checkAuth :: bool
  nows :: "nat \<Rightarrow> int"
  startNow :: int
  gpt4o_generateImage :: "string \<Rightarrow> string \<Rightarrow> thrown + StandardResponse"
  doubao_generateImage ::
    "string \<Rightarrow> string \<Rightarrow> string option \<Rightarrow> string \<Rightarrow> string option \<Rightarrow> thrown + StandardResponse"
  uploadImageFromUrl :: "string \<Rightarrow> thrown + UploadResult"
  toISOString :: string
  toISOString_catch :: string

section \<open>Constants and JavaScript operators\<close>

definition POLLING_INTERVAL :: int where
  "POLLING_INTERVAL = 100"

definition DEFAULT_COUNT :: int where
  "DEFAULT_COUNT = 1"

text \<open>\<^verbatim>\<open>a || d\<close> on an optional number and on an optional string: \<open>undefined\<close>, \<open>0\<close> and the
  empty string are falsy.\<close>

fun or_num :: "int option \<Rightarrow> int \<Rightarrow> int" where
  "or_num None d = d"
| "or_num (Some c) d = (if c = 0 then d else c)"

fun or_str :: "string option \<Rightarrow> string \<Rightarrow> string" where
  "or_str None d = d"
| "or_str (Some s) d = (if s = [] then d else s)"

fun truthy_str :: "string option \<Rightarrow> bool" where
  "truthy_str None = False"
| "truthy_str (Some s) = (s \<noteq> [])"

text \<open>\<^verbatim>\<open>error instanceof Error ? error.message : '...'\<close> with the literal "unknown error".\<close>

definition msg_unknown_error :: string where
  "msg_unknown_error =
     [CHR 0xE6, CHR 0x9C, CHR 0xAA, CHR 0xE7, CHR 0x9F, CHR 0xA5, CHR 0xE9, CHR 0x94, CHR 0x99,
      CHR 0xE8, CHR 0xAF, CHR 0xAF]"

fun error_message :: "thrown \<Rightarrow> string" where
  "error_message (Error m) = m"
| "error_message NonError = msg_unknown_error"

text \<open>The three notes of \<^verbatim>\<open>uploadToStorageIfNeeded\<close> (lines 148, 151, 153): "(saved to storage)",
  "(storage upload failed, using the original link)", "(storage upload exception, using the
  original link)", in full-width parentheses.\<close>

definition note_saved :: string where
  "note_saved =
     [CHR 0xEF, CHR 0xBC, CHR 0x88, CHR 0xE5, CHR 0xB7, CHR 0xB2, CHR 0xE4, CHR 0xBF, CHR 0x9D,
      CHR 0xE5, CHR 0xAD, CHR 0x98, CHR 0xE5, CHR 0x88, CHR 0xB0, CHR 0xE5, CHR 0xAD, CHR 0x98,
      CHR 0xE5, CHR 0x82, CHR 0xA8, CHR 0xEF, CHR 0xBC, CHR 0x89]"

definition note_upload_failed :: string where
  "note_upload_failed =
     [CHR 0xEF, CHR 0xBC, CHR 0x88, CHR 0xE5, CHR 0xAD, CHR 0x98, CHR 0xE5, CHR 0x82, CHR 0xA8,
      CHR 0xE4, CHR 0xB8, CHR 0x8A, CHR 0xE4, CHR 0xBC, CHR 0xA0, CHR 0xE5, CHR 0xA4, CHR 0xB1,
      CHR 0xE8, CHR 0xB4, CHR 0xA5, CHR 0xEF, CHR 0xBC, CHR 0x8C, CHR 0xE4, CHR 0xBD, CHR 0xBF,
      CHR 0xE7, CHR 0x94, CHR 0xA8, CHR 0xE5, CHR 0x8E, CHR 0x9F, CHR 0xE5, CHR 0xA7, CHR 0x8B,
      CHR 0xE9, CHR 0x93, CHR 0xBE, CHR 0xE6, CHR 0x8E, CHR 0xA5, CHR 0xEF, CHR 0xBC, CHR 0x89]"

definition note_upload_exception :: string where
  "note_upload_exception =
     [CHR 0xEF, CHR 0xBC, CHR 0x88, CHR 0xE5, CHR 0xAD, CHR 0x98, CHR 0xE5, CHR 0x82, CHR 0xA8,
      CHR 0xE4, CHR 0xB8, CHR 0x8A, CHR 0xE4, CHR 0xBC, CHR 0xA0, CHR 0xE5, CHR 0xBC, CHR 0x82,
      CHR 0xE5, CHR 0xB8, CHR 0xB8, CHR 0xEF, CHR 0xBC, CHR 0x8C, CHR 0xE4, CHR 0xBD, CHR 0xBF,
      CHR 0xE7, CHR 0x94, CHR 0xA8, CHR 0xE5, CHR 0x8E, CHR 0x9F, CHR 0xE5, CHR 0xA7, CHR 0x8B,
      CHR 0xE9, CHR 0x93, CHR 0xBE, CHR 0xE6, CHR 0x8E, CHR 0xA5, CHR 0xEF, CHR 0xBC, CHR 0x89]"

text \<open>Reading a property of \<open>undefined\<close> throws a \<open>TypeError\<close>; the message is the engine's.\<close>

definition TypeError_undefined :: "string \<Rightarrow> thrown" where
  "TypeError_undefined p =
     Error (''Cannot read properties of undefined (reading '' @ [CHR 0x27] @ p @ [CHR 0x27] @ '')'')"

section \<open>Provider registry\<close>

text \<open>\<^verbatim>\<open>getGroupConfig\<close> (modelsLoader.ts, lines 32-35) returns \<^verbatim>\<open>config.configs[group]\<close>: the
  entry, or \<open>undefined\<close> when there is none. \<^verbatim>\<open>getModelConfigByGroup\<close> (modelManager.ts, lines
  78-80) forwards to it.\<close>

definition getGroupConfig :: "ModelsConfig \<Rightarrow> string \<Rightarrow> GroupConfig option" where
  "getGroupConfig cfg g = configs cfg g"

definition getModelConfigByGroup :: "ModelsConfig \<Rightarrow> string \<Rightarrow> GroupConfig option" where
  "getModelConfigByGroup cfg g = getGroupConfig cfg g"

definition getModelById :: "ModelsConfig \<Rightarrow> string \<Rightarrow> ImageModel option" where
  "getModelById cfg i = find (\<lambda>m. model_id m = i) (models cfg)"



record ModelStatus =
  available :: bool
  status_model :: "ImageModel option"
  status_groupConfig :: "GroupConfig option"
  status_error :: "string option"

definition msg_model_missing :: string where
  "msg_model_missing =
     [CHR 0xE6, CHR 0xA8, CHR 0xA1, CHR 0xE5, CHR 0x9E, CHR 0x8B, CHR 0xE4, CHR 0xB8, CHR 0x8D,
      CHR 0xE5, CHR 0xAD, CHR 0x98, CHR 0xE5, CHR 0x9C, CHR 0xA8] @ '': ''"

definition msg_group_config_missing :: string where
  "msg_group_config_missing =
     [CHR 0xE6, CHR 0xA8, CHR 0xA1, CHR 0xE5, CHR 0x9E, CHR 0x8B, CHR 0xE7, CHR 0xBB, CHR 0x84,
      CHR 0xE9, CHR 0x85, CHR 0x8D, CHR 0xE7, CHR 0xBD, CHR 0xAE, CHR 0xE4, CHR 0xB8, CHR 0x8D,
      CHR 0xE5, CHR 0xAD, CHR 0x98, CHR 0xE5, CHR 0x9C, CHR 0xA8] @ '': ''"

text \<open>\<^verbatim>\<open>getModelStatus\<close> (modelManager.ts, lines 110-138); the messages read "model does not
  exist: <id>" and "model group configuration does not exist: <group>".\<close>

definition getModelStatus :: "ModelsConfig \<Rightarrow> string \<Rightarrow> ModelStatus" where
  "getModelStatus cfg i =
     (case getModelById cfg i of
        None \<Rightarrow>
          \<lparr>available = False, status_model = None, status_groupConfig = None,
           status_error = Some (msg_model_missing @ i)\<rparr>
      | Some m \<Rightarrow>
          (case getModelConfigByGroup cfg (model_group m) of
             None \<Rightarrow>
               \<lparr>available = False, status_model = Some m, status_groupConfig = None,
                status_error = Some (msg_group_config_missing @ model_group m)\<rparr>
           | Some c \<Rightarrow>
               \<lparr>available = True, status_model = Some m, status_groupConfig = Some c,
                status_error = None\<rparr>))"

section \<open>Admission ledger\<close>

text \<open>\<^verbatim>\<open>getActiveRequests\<close> and \<^verbatim>\<open>getLastRequestTime\<close> (lines 447-453): \<^verbatim>\<open>map.get(group) || 0\<close>.\<close>

definition getActiveRequests :: "Ledger \<Rightarrow> string \<Rightarrow> int" where
  "getActiveRequests L g = or_num (activeRequests L g) 0"

definition getLastRequestTime :: "Ledger \<Rightarrow> string \<Rightarrow> int" where
  "getLastRequestTime L g = or_num (lastRequestTime L g) 0"

text \<open>\<^verbatim>\<open>initializeCounters\<close> (lines 91-96): both maps get \<open>0\<close> at every key of the group
  configurations.\<close>

definition initializeCounters :: "ModelsConfig \<Rightarrow> Ledger" where
  "initializeCounters cfg =
     \<lparr>activeRequests = map_option (\<lambda>c. 0) \<circ> configs cfg,
      lastRequestTime = map_option (\<lambda>c. 0) \<circ> configs cfg\<rparr>"

text \<open>The test of the polling loop (lines 107-108) at the clock reading \<open>now\<close>.\<close>

definition admissible :: "GroupConfig \<Rightarrow> Ledger \<Rightarrow> string \<Rightarrow> int \<Rightarrow> bool" where
  "admissible mc L g now =
     (getActiveRequests L g < maxConcurrent mc \<and> cooldownMs mc \<le> now - getLastRequestTime L g)"

text \<open>
  \<^verbatim>\<open>waitForServiceAvailability\<close> (lines 98-115), from round \<open>k\<close> of the loop on. While one call
  runs alone the ledger does not change between two rounds, only the clock does. The loop has
  no bound: a run that never passes the test is \<open>None\<close>. A group without configuration makes
  \<^verbatim>\<open>modelConfig.maxConcurrent\<close> throw.
\<close>

partial_function (option) waitForServiceAvailability ::
  "ModelsConfig \<Rightarrow> Ledger \<Rightarrow> string \<Rightarrow> (nat \<Rightarrow> int) \<Rightarrow> nat \<Rightarrow> (thrown + unit) option" where
  "waitForServiceAvailability cfg L g clock k =
     (case getModelConfigByGroup cfg g of
        None \<Rightarrow> Some (Inl (TypeError_undefined ''maxConcurrent''))
      | Some mc \<Rightarrow>
          if admissible mc L g (clock k) then Some (Inr ())
          else waitForServiceAvailability cfg L g clock (Suc k))"

text \<open>The two updates of \<^verbatim>\<open>executeRequest\<close>: lines 130-131 when the dispatch starts, line 138
  in the \<^verbatim>\<open>finally\<close> block.\<close>

definition beginRequest :: "Ledger \<Rightarrow> string \<Rightarrow> int \<Rightarrow> Ledger" where
  "beginRequest L g now =
     L\<lparr>activeRequests := (activeRequests L)(g \<mapsto> getActiveRequests L g + 1),
       lastRequestTime := (lastRequestTime L)(g \<mapsto> now)\<rparr>"

definition endRequest :: "Ledger \<Rightarrow> string \<Rightarrow> Ledger" where
  "endRequest L g = L\<lparr>activeRequests := (activeRequests L)(g \<mapsto> getActiveRequests L g - 1)\<rparr>"

text \<open>
  \<^verbatim>\<open>executeRequest\<close> (lines 117-140). \<open>requestFn\<close> is how \<^verbatim>\<open>requestFn()\<close> settles; it runs
  between \<open>beginRequest\<close> and \<open>endRequest\<close>. The result is the ledger afterwards and what the
  call returns (\<open>Inr\<close>) or throws (\<open>Inl\<close>); \<open>None\<close> when the admission wait never ends.
\<close>

definition executeRequest ::
  "ModelsConfig \<Rightarrow> item_env \<Rightarrow> Ledger \<Rightarrow> string \<Rightarrow> thrown + 'a \<Rightarrow> (Ledger \<times> (thrown + 'a)) option" where
  "executeRequest cfg env L g requestFn =
     (if checkAuth env then
        (case waitForServiceAvailability cfg L g (nows env) 0 of
           None \<Rightarrow> None
         | Some (Inl e) \<Rightarrow> Some (L, Inl e)
         | Some (Inr u) \<Rightarrow> Some (endRequest (beginRequest L g (startNow env)) g, requestFn))
      else Some (L, Inl (Error ''AUTH_REQUIRED'')))"

text \<open>\<^verbatim>\<open>uploadToStorageIfNeeded\<close> (lines 143-157); it throws nothing.\<close>

definition uploadToStorageIfNeeded :: "item_env \<Rightarrow> StandardResponse \<Rightarrow> StandardResponse" where
  "uploadToStorageIfNeeded env result =
     (case imageUrl result of
        None \<Rightarrow> result
      | Some url \<Rightarrow>
          if success result \<and> url \<noteq> [] then
            (case uploadImageFromUrl env url of
               Inr uploadResult \<Rightarrow>
                 if upload_success uploadResult \<and> truthy_str (upload_url uploadResult)
                 then result\<lparr>imageUrl := upload_url uploadResult,
                             message := Some (or_str (message result) [] @ note_saved)\<rparr>
                 else result\<lparr>message := Some (or_str (message result) [] @ note_upload_failed)\<rparr>
             | Inl e \<Rightarrow>
                 result\<lparr>message := Some (or_str (message result) [] @ note_upload_exception)\<rparr>)
          else result)"

section \<open>Batch generation\<close>

text \<open>The failed result built in the \<^verbatim>\<open>catch\<close> block of both batch loops (lines 179-183 and
  228-232).\<close>

definition errorResult :: "thrown \<Rightarrow> string \<Rightarrow> StandardResponse" where
  "errorResult e stamp =
     \<lparr>success = False, message = None, imageUrl = None, error = Some (error_message e),
      textPayload = None, createdAt = Some stamp\<rparr>"

text \<open>
  One round of the loop of \<^verbatim>\<open>generateMultipleImages\<close> (lines 169-184) on the ledger, the list
  \<^verbatim>\<open>errors\<close> and the list \<^verbatim>\<open>results\<close>. \<open>generateFn request env\<close> is how
  \<^verbatim>\<open>generateFn(request)\<close> settles in this round.
\<close>

definition generateMultipleImages_item ::
  "ModelsConfig \<Rightarrow> string \<Rightarrow> ServiceRequest \<Rightarrow>
   (ServiceRequest \<Rightarrow> item_env \<Rightarrow> thrown + StandardResponse) \<Rightarrow> item_env \<Rightarrow>
   Ledger \<times> thrown list \<times> StandardResponse list \<Rightarrow>
   (Ledger \<times> thrown list \<times> StandardResponse list) option" where
  "generateMultipleImages_item cfg g request generateFn env acc =
     (case acc of (L, errors, rs) \<Rightarrow>
        (case executeRequest cfg env L g (generateFn request env) of
           None \<Rightarrow> None
         | Some (L', Inr result) \<Rightarrow>
             Some (L', errors,
                   rs @ [(uploadToStorageIfNeeded env result)\<lparr>createdAt := Some (toISOString env)\<rparr>])
         | Some (L', Inl e) \<Rightarrow>
             Some (L', errors @ [e], rs @ [errorResult e (toISOString_catch env)])))"

text \<open>The \<^verbatim>\<open>for\<close> loop of lines 168-185 from index \<open>i\<close> on; item \<open>i\<close> meets the world
  \<open>envs i\<close>.\<close>

function generateMultipleImages_loop ::
  "ModelsConfig \<Rightarrow> string \<Rightarrow> ServiceRequest \<Rightarrow>
   (ServiceRequest \<Rightarrow> item_env \<Rightarrow> thrown + StandardResponse) \<Rightarrow> (nat \<Rightarrow> item_env) \<Rightarrow>
   int \<Rightarrow> nat \<Rightarrow> Ledger \<times> thrown list \<times> StandardResponse list \<Rightarrow>
   (Ledger \<times> thrown list \<times> StandardResponse list) option" where
  "generateMultipleImages_loop cfg g request generateFn envs n i acc =
     (if int i < n then
        (case generateMultipleImages_item cfg g request generateFn (envs i) acc of
           None \<Rightarrow> None
         | Some acc' \<Rightarrow> generateMultipleImages_loop cfg g request generateFn envs n (Suc i) acc')
      else Some acc)"
  by pat_completeness auto
termination
  by (relation "measure (\<lambda>(cfg, g, request, generateFn, envs, n, i, acc). nat (n - int i))") auto

text \<open>The local \<^verbatim>\<open>count\<close> of line 164: \<^verbatim>\<open>request.count || DEFAULT_COUNT\<close>.\<close>

definition batch_count :: "ServiceRequest \<Rightarrow> int" where
  "batch_count request = or_num (count request) DEFAULT_COUNT"

text \<open>\<^verbatim>\<open>generateMultipleImages\<close> (lines 159-199). It throws nothing itself.\<close>

definition generateMultipleImages ::
  "ModelsConfig \<Rightarrow> (nat \<Rightarrow> item_env) \<Rightarrow> Ledger \<Rightarrow> string \<Rightarrow> ServiceRequest \<Rightarrow>
   (ServiceRequest \<Rightarrow> item_env \<Rightarrow> thrown + StandardResponse) \<Rightarrow>
   (Ledger \<times> GenerationResponse) option" where
  "generateMultipleImages cfg envs L g request generateFn =
     (let n = batch_count request in
      case generateMultipleImages_loop cfg g request generateFn envs n 0 (L, [], []) of
        None \<Rightarrow> None
      | Some (L', errors, rs) \<Rightarrow>
          Some (L', \<lparr>results = rs,
                     metadata = Some \<lparr>totalRequested = n,
                                       successful = int (length (filter success rs)),
                                       failed = int (length errors)\<rparr>\<rparr>))"

section \<open>Streaming batch generation\<close>

text \<open>
  \<^verbatim>\<open>StreamGenerationRequest\<close> (lines 48-53); its \<^verbatim>\<open>count\<close> is \<open>stream_count\<close>. A callback is
  given by what a call of it does to the dispatcher: \<open>None\<close> when it returns, \<open>Some e\<close> when it
  throws \<open>e\<close>. Every call of a callback that is present is recorded as an \<open>event\<close>.
\<close>

record StreamGenerationRequest =
  stream_count :: "int option"
  onProgress :: "(StandardResponse \<Rightarrow> int \<Rightarrow> int \<Rightarrow> thrown option) option"
  onComplete :: "(GenerationResponse \<Rightarrow> thrown option) option"
  onError :: "(thrown \<Rightarrow> thrown option) option"

datatype event =
  OnProgress StandardResponse int int
| OnComplete GenerationResponse
| OnError thrown

text \<open>\<^verbatim>\<open>streamRequest.onProgress?.(r, i, count)\<close> and its two siblings: the events recorded and
  what the call throws.\<close>

definition call_onProgress ::
  "StreamGenerationRequest \<Rightarrow> StandardResponse \<Rightarrow> int \<Rightarrow> int \<Rightarrow> event list \<times> thrown option" where
  "call_onProgress sr r i n =
     (case onProgress sr of None \<Rightarrow> ([], None) | Some f \<Rightarrow> ([OnProgress r i n], f r i n))"

definition call_onComplete ::
  "StreamGenerationRequest \<Rightarrow> GenerationResponse \<Rightarrow> event list \<times> thrown option" where
  "call_onComplete sr resp =
     (case onComplete sr of None \<Rightarrow> ([], None) | Some f \<Rightarrow> ([OnComplete resp], f resp))"

definition call_onError :: "StreamGenerationRequest \<Rightarrow> thrown \<Rightarrow> event list \<times> thrown option" where
  "call_onError sr e =
     (case onError sr of None \<Rightarrow> ([], None) | Some f \<Rightarrow> ([OnError e], f e))"

text \<open>
  The inner \<^verbatim>\<open>catch\<close> block (lines 227-239) entered with the thrown value \<open>e\<close>: the second
  component is what escapes to the outer \<^verbatim>\<open>catch\<close>, if anything.
\<close>

definition stream_catch ::
  "StreamGenerationRequest \<Rightarrow> item_env \<Rightarrow> int \<Rightarrow> int \<Rightarrow> thrown \<Rightarrow>
   Ledger \<times> thrown list \<times> StandardResponse list \<times> event list \<Rightarrow>
   (Ledger \<times> thrown list \<times> StandardResponse list \<times> event list) \<times> thrown option" where
  "stream_catch sr env i n e acc =
     (case acc of (L, errors, rs, evs) \<Rightarrow>
        (let r = errorResult e (toISOString_catch env) in
         case call_onProgress sr r i n of
           (evs', thr) \<Rightarrow> ((L, errors @ [e], rs @ [r], evs @ evs'), thr)))"

text \<open>One round of the loop of \<^verbatim>\<open>generateMultipleImagesStream\<close> (lines 214-239).\<close>

definition generateMultipleImagesStream_item ::
  "ModelsConfig \<Rightarrow> string \<Rightarrow> ServiceRequest \<Rightarrow>
   (ServiceRequest \<Rightarrow> item_env \<Rightarrow> thrown + StandardResponse) \<Rightarrow> StreamGenerationRequest \<Rightarrow>
   item_env \<Rightarrow> int \<Rightarrow> int \<Rightarrow>
   Ledger \<times> thrown list \<times> StandardResponse list \<times> event list \<Rightarrow>
   ((Ledger \<times> thrown list \<times> StandardResponse list \<times> event list) \<times> thrown option) option" where
  "generateMultipleImagesStream_item cfg g request generateFn sr env i n acc =
     (case acc of (L, errors, rs, evs) \<Rightarrow>
        (case executeRequest cfg env L g (generateFn request env) of
           None \<Rightarrow> None
         | Some (L', Inl e) \<Rightarrow> Some (stream_catch sr env i n e (L', errors, rs, evs))
         | Some (L', Inr result) \<Rightarrow>
             (let r = (uploadToStorageIfNeeded env result)\<lparr>createdAt := Some (toISOString env)\<rparr> in
              case call_onProgress sr r i n of
                (evs', None) \<Rightarrow> Some ((L', errors, rs @ [r], evs @ evs'), None)
              | (evs', Some e) \<Rightarrow>
                  Some (stream_catch sr env i n e (L', errors, rs @ [r], evs @ evs')))))"

text \<open>The \<^verbatim>\<open>for\<close> loop of lines 213-240; a value that escapes the inner \<^verbatim>\<open>catch\<close> ends it.\<close>

function generateMultipleImagesStream_loop ::
  "ModelsConfig \<Rightarrow> string \<Rightarrow> ServiceRequest \<Rightarrow>
   (ServiceRequest \<Rightarrow> item_env \<Rightarrow> thrown + StandardResponse) \<Rightarrow> StreamGenerationRequest \<Rightarrow>
   (nat \<Rightarrow> item_env) \<Rightarrow> int \<Rightarrow> nat \<Rightarrow>
   Ledger \<times> thrown list \<times> StandardResponse list \<times> event list \<Rightarrow>
   ((Ledger \<times> thrown list \<times> StandardResponse list \<times> event list) \<times> thrown option) option" where
  "generateMultipleImagesStream_loop cfg g request generateFn sr envs n i acc =
     (if int i < n then
        (case generateMultipleImagesStream_item cfg g request generateFn sr (envs i) (int i) n acc of
           None \<Rightarrow> None
         | Some (acc', Some e) \<Rightarrow> Some (acc', Some e)
         | Some (acc', None) \<Rightarrow>
             generateMultipleImagesStream_loop cfg g request generateFn sr envs n (Suc i) acc')
      else Some (acc, None))"
  by pat_completeness auto
termination
  by (relation "measure (\<lambda>(cfg, g, request, generateFn, sr, envs, n, i, acc). nat (n - int i))") auto

text \<open>The local \<^verbatim>\<open>count\<close> of line 208:
  \<^verbatim>\<open>streamRequest.count || request.count || DEFAULT_COUNT\<close>.\<close>

definition stream_batch_count :: "StreamGenerationRequest \<Rightarrow> ServiceRequest \<Rightarrow> int" where
  "stream_batch_count sr request =
     or_num (stream_count sr) (or_num (count request) DEFAULT_COUNT)"

text \<open>
  \<^verbatim>\<open>generateMultipleImagesStream\<close> (lines 202-262): the ledger afterwards, the callbacks called
  in order, and the value the returned promise is rejected with, if any (a throwing
  \<^verbatim>\<open>onError\<close>).
\<close>

definition generateMultipleImagesStream ::
  "ModelsConfig \<Rightarrow> (nat \<Rightarrow> item_env) \<Rightarrow> Ledger \<Rightarrow> string \<Rightarrow> ServiceRequest \<Rightarrow>
   (ServiceRequest \<Rightarrow> item_env \<Rightarrow> thrown + StandardResponse) \<Rightarrow> StreamGenerationRequest \<Rightarrow>
   (Ledger \<times> event list \<times> thrown option) option" where
  "generateMultipleImagesStream cfg envs L g request generateFn sr =
     (let n = stream_batch_count sr request in
      case generateMultipleImagesStream_loop cfg g request generateFn sr envs n 0 (L, [], [], []) of
        None \<Rightarrow> None
      | Some ((L', errors, rs, evs), Some e) \<Rightarrow>
          (case call_onError sr e of (evs', thr) \<Rightarrow> Some (L', evs @ evs', thr))
      | Some ((L', errors, rs, evs), None) \<Rightarrow>
          (let finalResponse =
                 \<lparr>results = rs,
                  metadata = Some \<lparr>totalRequested = n,
                                    successful = int (length (filter success rs)),
                                    failed = int (length errors)\<rparr>\<rparr> in
           case call_onComplete sr finalResponse of
             (evs', None) \<Rightarrow> Some (L', evs @ evs', None)
           | (evs', Some e) \<Rightarrow>
               (case call_onError sr e of (evs'', thr) \<Rightarrow> Some (L', evs @ evs' @ evs'', thr))))"

section \<open>Provider routing\<close>

definition msg_gpt4o_key :: string where
  "msg_gpt4o_key =
     ''GPT4o '' @
     [CHR 0xE6, CHR 0x9C, CHR 0x8D, CHR 0xE5, CHR 0x8A, CHR 0xA1, CHR 0xE9, CHR 0x9C, CHR 0x80,
      CHR 0xE8, CHR 0xA6, CHR 0x81, CHR 0xE6, CHR 0x9C, CHR 0x89, CHR 0xE6, CHR 0x95, CHR 0x88,
      CHR 0xE7, CHR 0x9A, CHR 0x84] @ '' API '' @
     [CHR 0xE5, CHR 0xAF, CHR 0x86, CHR 0xE9, CHR 0x92, CHR 0xA5, CHR 0xE9, CHR 0x85, CHR 0x8D,
      CHR 0xE7, CHR 0xBD, CHR 0xAE]"

definition msg_doubao_key :: string where
  "msg_doubao_key =
     ''Doubao '' @
     [CHR 0xE6, CHR 0x9C, CHR 0x8D, CHR 0xE5, CHR 0x8A, CHR 0xA1, CHR 0xE9, CHR 0x9C, CHR 0x80,
      CHR 0xE8, CHR 0xA6, CHR 0x81, CHR 0xE6, CHR 0x9C, CHR 0x89, CHR 0xE6, CHR 0x95, CHR 0x88,
      CHR 0xE7, CHR 0x9A, CHR 0x84] @ '' API '' @
     [CHR 0xE5, CHR 0xAF, CHR 0x86, CHR 0xE9, CHR 0x92, CHR 0xA5, CHR 0xE5, CHR 0x92, CHR 0x8C,
      CHR 0xE5, CHR 0xAF, CHR 0x86, CHR 0xE9, CHR 0x92, CHR 0xA5, CHR 0xE9, CHR 0x85, CHR 0x8D,
      CHR 0xE7, CHR 0xBD, CHR 0xAE]"

text \<open>\<^verbatim>\<open>modelConfig.config_json?.api_key\<close> and \<^verbatim>\<open>modelConfig.config_json?.api_secret\<close> behind
  the test \<^verbatim>\<open>!modelConfig\<close>: \<open>None\<close> when a link of the chain is missing.\<close>

definition api_key_of :: "ModelConfig option \<Rightarrow> string option" where
  "api_key_of modelConfig =
     (case modelConfig of
        None \<Rightarrow> None
      | Some mc \<Rightarrow> (case config_json mc of None \<Rightarrow> None | Some cj \<Rightarrow> api_key cj))"

definition api_secret_of :: "ModelConfig option \<Rightarrow> string option" where
  "api_secret_of modelConfig =
     (case modelConfig of
        None \<Rightarrow> None
      | Some mc \<Rightarrow> (case config_json mc of None \<Rightarrow> None | Some cj \<Rightarrow> api_secret cj))"

definition ark_api_key_of :: "ModelConfig option \<Rightarrow> string option" where
  "ark_api_key_of modelConfig =
     (case modelConfig of
        None \<Rightarrow> None
      | Some mc \<Rightarrow> (case config_json mc of None \<Rightarrow> None | Some cj \<Rightarrow> ark_api_key cj))"

text \<open>
  The function handed to the batch loop by \<^verbatim>\<open>generateImageWithGPT4o\<close> (lines 266-275, and 301-310
  in stream mode): without a usable \<^verbatim>\<open>api_key\<close> it throws "the GPT4o service needs a valid API
  key configuration", otherwise it calls the provider with the prompt.
\<close>

definition GPT4o_generateFn ::
  "ModelConfig option \<Rightarrow> ServiceRequest \<Rightarrow> item_env \<Rightarrow> thrown + StandardResponse" where
  "GPT4o_generateFn modelConfig req env =
     (if truthy_str (api_key_of modelConfig)
      then gpt4o_generateImage env (or_str (api_key_of modelConfig) []) (prompt req)
      else Inl (Error msg_gpt4o_key))"

text \<open>The one of \<^verbatim>\<open>generateImageWithDoubao\<close> (lines 279-293 and 319-333): \<^verbatim>\<open>api_key\<close> and
  \<^verbatim>\<open>api_secret\<close> are both needed; the message reads "the Doubao service needs a valid API key
  and secret configuration".\<close>

definition Doubao_generateFn ::
  "ModelConfig option \<Rightarrow> ServiceRequest \<Rightarrow> item_env \<Rightarrow> thrown + StandardResponse" where
  "Doubao_generateFn modelConfig req env =
     (if truthy_str (api_key_of modelConfig) \<and> truthy_str (api_secret_of modelConfig)
      then doubao_generateImage env (or_str (api_key_of modelConfig) [])
             (or_str (api_secret_of modelConfig) []) (ark_api_key_of modelConfig)
             (prompt req) (model req)
      else Inl (Error msg_doubao_key))"

definition generateImageWithGPT4o ::
  "ModelsConfig \<Rightarrow> (nat \<Rightarrow> item_env) \<Rightarrow> Ledger \<Rightarrow> ServiceRequest \<Rightarrow> ModelConfig option \<Rightarrow>
   (Ledger \<times> GenerationResponse) option" where
  "generateImageWithGPT4o cfg envs L request modelConfig =
     generateMultipleImages cfg envs L ''openai'' request (GPT4o_generateFn modelConfig)"

definition generateImageWithDoubao ::
  "ModelsConfig \<Rightarrow> (nat \<Rightarrow> item_env) \<Rightarrow> Ledger \<Rightarrow> ServiceRequest \<Rightarrow> ModelConfig option \<Rightarrow>
   (Ledger \<times> GenerationResponse) option" where
  "generateImageWithDoubao cfg envs L request modelConfig =
     generateMultipleImages cfg envs L ''doubao'' request (Doubao_generateFn modelConfig)"

definition generateImageWithGPT4oStream ::
  "ModelsConfig \<Rightarrow> (nat \<Rightarrow> item_env) \<Rightarrow> Ledger \<Rightarrow> ServiceRequest \<Rightarrow> StreamGenerationRequest \<Rightarrow>
   ModelConfig option \<Rightarrow> (Ledger \<times> event list \<times> thrown option) option" where
  "generateImageWithGPT4oStream cfg envs L request streamRequest modelConfig =
     generateMultipleImagesStream cfg envs L ''openai'' request (GPT4o_generateFn modelConfig)
       streamRequest"

definition generateImageWithDoubaoStream ::
  "ModelsConfig \<Rightarrow> (nat \<Rightarrow> item_env) \<Rightarrow> Ledger \<Rightarrow> ServiceRequest \<Rightarrow> StreamGenerationRequest \<Rightarrow>
   ModelConfig option \<Rightarrow> (Ledger \<times> event list \<times> thrown option) option" where
  "generateImageWithDoubaoStream cfg envs L request streamRequest modelConfig =
     generateMultipleImagesStream cfg envs L ''doubao'' request (Doubao_generateFn modelConfig)
       streamRequest"

text \<open>The messages of the routing switch: "model unavailable", "<category> model group is not
  supported yet" and "unsupported model group: <group>".\<close>

definition msg_model_unavailable :: string where
  "msg_model_unavailable =
     [CHR 0xE6, CHR 0xA8, CHR 0xA1, CHR 0xE5, CHR 0x9E, CHR 0x8B, CHR 0xE4, CHR 0xB8, CHR 0x8D,
      CHR 0xE5, CHR 0x8F, CHR 0xAF, CHR 0xE7, CHR 0x94, CHR 0xA8]"

definition msg_not_yet_supported :: "string \<Rightarrow> string" where
  "msg_not_yet_supported c =
     [CHR 0xE6, CHR 0x9A, CHR 0x82, CHR 0xE4, CHR 0xB8, CHR 0x8D, CHR 0xE6, CHR 0x94, CHR 0xAF,
      CHR 0xE6, CHR 0x8C, CHR 0x81] @ '' '' @ c @ '' '' @
     [CHR 0xE6, CHR 0xA8, CHR 0xA1, CHR 0xE5, CHR 0x9E, CHR 0x8B, CHR 0xE7, CHR 0xBB, CHR 0x84]"

definition msg_unsupported_group :: "string \<Rightarrow> string" where
  "msg_unsupported_group g =
     [CHR 0xE4, CHR 0xB8, CHR 0x8D, CHR 0xE6, CHR 0x94, CHR 0xAF, CHR 0xE6, CHR 0x8C, CHR 0x81,
      CHR 0xE7, CHR 0x9A, CHR 0x84, CHR 0xE6, CHR 0xA8, CHR 0xA1, CHR 0xE5, CHR 0x9E, CHR 0x8B,
      CHR 0xE7, CHR 0xBB, CHR 0x84] @ '': '' @ g"

text \<open>
  \<^verbatim>\<open>generateImage\<close> (lines 404-445): the ledger afterwards and the response (\<open>Inr\<close>) or the value
  the call is rejected with (\<open>Inl\<close>). The \<^verbatim>\<open>model\<close> field of the request given to it is not read.
\<close>

definition generateImage ::
  "ModelsConfig \<Rightarrow> (nat \<Rightarrow> item_env) \<Rightarrow> Ledger \<Rightarrow> string \<Rightarrow> ServiceRequest \<Rightarrow> ModelConfig option \<Rightarrow>
   (Ledger \<times> (thrown + GenerationResponse)) option" where
  "generateImage cfg envs L modelId request modelConfig =
     (let modelStatus = getModelStatus cfg modelId in
      if available modelStatus then
        (case status_model modelStatus of
           None \<Rightarrow> Some (L, Inl (TypeError_undefined ''group''))
         | Some m \<Rightarrow>
             if model_group m = ''openai'' then
               map_option (\<lambda>(L', r). (L', Inr r))
                 (generateImageWithGPT4o cfg envs L
                    \<lparr>prompt = prompt request, model = None, count = count request\<rparr> modelConfig)
             else if model_group m = ''doubao'' then
               map_option (\<lambda>(L', r). (L', Inr r))
                 (generateImageWithDoubao cfg envs L
                    \<lparr>prompt = prompt request, model = Some modelId, count = count request\<rparr>
                    modelConfig)
             else if model_group m = ''cogview'' then
               Some (L, Inl (Error (msg_not_yet_supported (category m))))
             else if model_group m = ''tongyi'' then
               Some (L, Inl (Error (msg_not_yet_supported (category m))))
             else if model_group m = ''jimeng'' then
               Some (L, Inl (Error (msg_not_yet_supported (category m))))
             else Some (L, Inl (Error (msg_unsupported_group (model_group m)))))
      else Some (L, Inl (Error (or_str (status_error modelStatus) msg_model_unavailable))))"

text \<open>\<^verbatim>\<open>generateImageStream\<close> (lines 340-398).\<close>

definition generateImageStream ::
  "ModelsConfig \<Rightarrow> (nat \<Rightarrow> item_env) \<Rightarrow> Ledger \<Rightarrow> string \<Rightarrow> ServiceRequest \<Rightarrow>
   StreamGenerationRequest \<Rightarrow> ModelConfig option \<Rightarrow> (Ledger \<times> event list \<times> thrown option) option" where
  "generateImageStream cfg envs L modelId request streamRequest modelConfig =
     (let modelStatus = getModelStatus cfg modelId in
      if available modelStatus then
        (case status_model modelStatus of
           None \<Rightarrow> Some (L, [], Some (TypeError_undefined ''group''))
         | Some m \<Rightarrow>
             if model_group m = ''openai'' then
               generateImageWithGPT4oStream cfg envs L
                 \<lparr>prompt = prompt request, model = None, count = count request\<rparr>
                 streamRequest modelConfig
             else if model_group m = ''doubao'' then
               generateImageWithDoubaoStream cfg envs L
                 \<lparr>prompt = prompt request, model = Some modelId, count = count request\<rparr>
                 streamRequest modelConfig
             else if model_group m = ''cogview'' then
               (case call_onError streamRequest (Error (msg_not_yet_supported (category m))) of
                  (evs, thr) \<Rightarrow> Some (L, evs, thr))
             else if model_group m = ''tongyi'' then
               (case call_onError streamRequest (Error (msg_not_yet_supported (category m))) of
                  (evs, thr) \<Rightarrow> Some (L, evs, thr))
             else if model_group m = ''jimeng'' then
               (case call_onError streamRequest (Error (msg_not_yet_supported (category m))) of
                  (evs, thr) \<Rightarrow> Some (L, evs, thr))
             else
               (case call_onError streamRequest (Error (msg_unsupported_group (model_group m))) of
                  (evs, thr) \<Rightarrow> Some (L, evs, thr)))
      else
        (case call_onError streamRequest
                (Error (or_str (status_error modelStatus) msg_model_unavailable)) of
           (evs, thr) \<Rightarrow> Some (L, evs, thr)))"

section \<open>The shipped configuration\<close>

text \<open>\<^verbatim>\<open>config/models.json\<close>: five groups with the same limits, twelve models. The categories
  are the UTF-8 bytes of the names in the file.\<close>

definition cat_doubao :: string where
  "cat_doubao = [CHR 0xE8, CHR 0xB1, CHR 0x86, CHR 0xE5, CHR 0x8C, CHR 0x85]"

definition cat_zhipu :: string where
  "cat_zhipu = [CHR 0xE6, CHR 0x99, CHR 0xBA, CHR 0xE8, CHR 0xB0, CHR 0xB1]"

definition cat_tongyi :: string where
  "cat_tongyi =
     [CHR 0xE9, CHR 0x80, CHR 0x9A, CHR 0xE4, CHR 0xB9, CHR 0x89, CHR 0xE4, CHR 0xB8, CHR 0x87,
      CHR 0xE7, CHR 0x9B, CHR 0xB8]"

definition cat_jimeng :: string where
  "cat_jimeng = [CHR 0xE5, CHR 0x8D, CHR 0xB3, CHR 0xE6, CHR 0xA2, CHR 0xA6]"

definition modelsConfig :: ModelsConfig where
  "modelsConfig =
     \<lparr>configs = map_of
        [(''doubao'', \<lparr>maxConcurrent = 2, cooldownMs = 1000\<rparr>),
         (''openai'', \<lparr>maxConcurrent = 2, cooldownMs = 1000\<rparr>),
         (''cogview'', \<lparr>maxConcurrent = 2, cooldownMs = 1000\<rparr>),
         (''tongyi'', \<lparr>maxConcurrent = 2, cooldownMs = 1000\<rparr>),
         (''jimeng'', \<lparr>maxConcurrent = 2, cooldownMs = 1000\<rparr>)],
      models =
        [\<lparr>model_id = ''doubao-seedream-3-0-t2i-250415'', category = cat_doubao, model_group = ''doubao''\<rparr>,
         \<lparr>model_id = ''high_aes_general_v21_L'', category = cat_doubao, model_group = ''doubao''\<rparr>,
         \<lparr>model_id = ''high_aes_general_v20_L'', category = cat_doubao, model_group = ''doubao''\<rparr>,
         \<lparr>model_id = ''high_aes_general_v20'', category = cat_doubao, model_group = ''doubao''\<rparr>,
         \<lparr>model_id = ''high_aes_general_v14'', category = cat_doubao, model_group = ''doubao''\<rparr>,
         \<lparr>model_id = ''t2i_xl_sft'', category = cat_doubao, model_group = ''doubao''\<rparr>,
         \<lparr>model_id = ''gpt_4o'', category = ''OpenAI'', model_group = ''openai''\<rparr>,
         \<lparr>model_id = ''cogView-4-250304'', category = cat_zhipu, model_group = ''cogview''\<rparr>,
         \<lparr>model_id = ''wanx2.0-t2i-turbo'', category = cat_tongyi, model_group = ''tongyi''\<rparr>,
         \<lparr>model_id = ''wanx2.1-t2i-turbo'', category = cat_tongyi, model_group = ''tongyi''\<rparr>,
         \<lparr>model_id = ''wanx2.1-t2i-plus'', category = cat_tongyi, model_group = ''tongyi''\<rparr>,
         \<lparr>model_id = ''jimeng_high_aes_general_v21_L'', category = cat_jimeng,
          model_group = ''jimeng''\<rparr>]\<rparr>"

section \<open>Interleaved dispatches\<close>

text \<open>
  Several calls of \<^verbatim>\<open>executeRequest\<close> share the ledger. The event loop runs one of them at a
  time and changes to another one only where the running one is suspended at an \<^verbatim>\<open>await\<close>.
  A call of \<^verbatim>\<open>executeRequest\<close> is suspended at one of four places:
  \<^item> \<open>AtCheckAuth\<close>: \<^verbatim>\<open>await this.authMiddleware.checkAuth()\<close>, line 122;
  \<^item> \<open>AtTimer\<close>: \<^verbatim>\<open>await new Promise(resolve => setTimeout(resolve, POLLING_INTERVAL))\<close>, line 113;
  \<^item> \<open>AtWaitReturn\<close>: \<^verbatim>\<open>await this.waitForServiceAvailability(group)\<close>, line 127, once the loop
    has left by \<^verbatim>\<open>break\<close>: the rest of \<^verbatim>\<open>executeRequest\<close> runs in a later job of the
    microtask queue, as after every \<^verbatim>\<open>await\<close>, also on a promise that is already resolved;
  \<^item> \<open>AtRequest\<close>: \<^verbatim>\<open>await requestFn()\<close>, line 134.
  \<open>Settled\<close> is a call that has returned or thrown.
\<close>

datatype point = AtCheckAuth | AtTimer | AtWaitReturn | AtRequest | Settled

text \<open>
  What resumes a suspended call, with the values read in the piece of code that runs then:
  the value of \<^verbatim>\<open>checkAuth()\<close> and the clock of the first round of the loop; the clock of a
  later round; the clock of line 131 and whether \<^verbatim>\<open>requestFn()\<close> throws at once; the provider
  call settling.
\<close>

datatype resume =
  AuthSettled bool int
| TimerFired int
| WaitReturned int bool
| RequestSettled

text \<open>One round of the polling loop (lines 101-113) at the clock reading \<open>now\<close>: the place where
  the call is suspended next.\<close>

definition poll_round :: "ModelsConfig \<Rightarrow> Ledger \<Rightarrow> string \<Rightarrow> int \<Rightarrow> point" where
  "poll_round cfg L g now =
     (case getModelConfigByGroup cfg g of
        None \<Rightarrow> Settled
      | Some mc \<Rightarrow> if admissible mc L g now then AtWaitReturn else AtTimer)"

text \<open>The piece of \<^verbatim>\<open>executeRequest\<close> that runs when a call for group \<open>g\<close> is resumed; \<open>None\<close>
  when the call is not suspended at the place the resumption is for.\<close>

definition resume_task ::
  "ModelsConfig \<Rightarrow> resume \<Rightarrow> Ledger \<Rightarrow> string \<times> point \<Rightarrow> (Ledger \<times> string \<times> point) option" where
  "resume_task cfg r L t =
     (case t of (g, p) \<Rightarrow>
        (case r of
           AuthSettled ok now \<Rightarrow>
             if p = AtCheckAuth
             then Some (L, g, if ok then poll_round cfg L g now else Settled)
             else None
         | TimerFired now \<Rightarrow>
             if p = AtTimer then Some (L, g, poll_round cfg L g now) else None
         | WaitReturned now throws \<Rightarrow>
             if p = AtWaitReturn
             then (if throws then Some (endRequest (beginRequest L g now) g, g, Settled)
                   else Some (beginRequest L g now, g, AtRequest))
             else None
         | RequestSettled \<Rightarrow>
             if p = AtRequest then Some (endRequest L g, g, Settled) else None))"

text \<open>The event loop resumes call number \<open>i\<close>; a schedule is a list of such steps.\<close>

fun step ::
  "ModelsConfig \<Rightarrow> nat \<times> resume \<Rightarrow> Ledger \<times> (string \<times> point) list \<Rightarrow>
   (Ledger \<times> (string \<times> point) list) option" where
  "step cfg (i, r) (L, ts) =
     (if i < length ts then
        (case resume_task cfg r L (ts ! i) of
           None \<Rightarrow> None
         | Some (L', t') \<Rightarrow> Some (L', ts[i := t']))
      else None)"

fun run ::
  "ModelsConfig \<Rightarrow> (nat \<times> resume) list \<Rightarrow> Ledger \<times> (string \<times> point) list \<Rightarrow>
   (Ledger \<times> (string \<times> point) list) option" where
  "run cfg [] s = Some s"
| "run cfg (e # es) s = (case step cfg e s of None \<Rightarrow> None | Some s' \<Rightarrow> run cfg es s')"

text \<open>What \<^verbatim>\<open>getActiveRequests\<close> and \<^verbatim>\<open>getLastRequestTime\<close> return after a schedule, and the
  calls then suspended at the provider call.\<close>

definition observe ::
  "ModelsConfig \<Rightarrow> (nat \<times> resume) list \<Rightarrow> Ledger \<times> (string \<times> point) list \<Rightarrow> string \<Rightarrow>
   (int \<times> int \<times> nat) option" where
  "observe cfg sched s g =
     (case run cfg sched s of
        None \<Rightarrow> None
      | Some (L, ts) \<Rightarrow>
          Some (getActiveRequests L g, getLastRequestTime L g,
                length (filter (\<lambda>t. t = (g, AtRequest)) ts)))"

section \<open>What a batch computes\<close>

text \<open>
  The definitions of this section describe the batch functions in closed form; the lemmas
  below prove that the functions above compute them.

  The clock read by the polling loop passes every bound (time goes on), and the group has
  room: its in-flight count is below \<^verbatim>\<open>maxConcurrent\<close>. An item can proceed when it fails the
  authentication test, or finds room and a clock that goes on.
\<close>

definition clock_unbounded :: "(nat \<Rightarrow> int) \<Rightarrow> bool" where
  "clock_unbounded clock = (\<forall>T. \<exists>k. T \<le> clock k)"

definition has_room :: "ModelsConfig \<Rightarrow> Ledger \<Rightarrow> string \<Rightarrow> bool" where
  "has_room cfg L g =
     (case getModelConfigByGroup cfg g of
        None \<Rightarrow> True
      | Some mc \<Rightarrow> getActiveRequests L g < maxConcurrent mc)"

definition can_proceed :: "ModelsConfig \<Rightarrow> Ledger \<Rightarrow> string \<Rightarrow> item_env \<Rightarrow> bool" where
  "can_proceed cfg L g env =
     (if checkAuth env then has_room cfg L g \<and> clock_unbounded (nows env) else True)"

text \<open>What \<^verbatim>\<open>executeRequest\<close> returns or throws, and the ledger it leaves, once the admission wait
  has ended.\<close>

definition outcome_of :: "ModelsConfig \<Rightarrow> item_env \<Rightarrow> string \<Rightarrow> thrown + 'a \<Rightarrow> thrown + 'a" where
  "outcome_of cfg env g requestFn =
     (if checkAuth env then
        (case getModelConfigByGroup cfg g of
           None \<Rightarrow> Inl (TypeError_undefined ''maxConcurrent'')
         | Some mc \<Rightarrow> requestFn)
      else Inl (Error ''AUTH_REQUIRED''))"

definition ledger_after :: "ModelsConfig \<Rightarrow> item_env \<Rightarrow> Ledger \<Rightarrow> string \<Rightarrow> Ledger" where
  "ledger_after cfg env L g =
     (if checkAuth env then
        (case getModelConfigByGroup cfg g of
           None \<Rightarrow> L
         | Some mc \<Rightarrow> endRequest (beginRequest L g (startNow env)) g)
      else L)"

definition ledger_after_items ::
  "ModelsConfig \<Rightarrow> string \<Rightarrow> (nat \<Rightarrow> item_env) \<Rightarrow> Ledger \<Rightarrow> nat list \<Rightarrow> Ledger" where
  "ledger_after_items cfg g envs L js = foldl (\<lambda>L' j. ledger_after cfg (envs j) L' g) L js"

text \<open>The result pushed for one item and the errors it adds to \<^verbatim>\<open>errors\<close>.\<close>

definition item_response ::
  "ModelsConfig \<Rightarrow> string \<Rightarrow> ServiceRequest \<Rightarrow>
   (ServiceRequest \<Rightarrow> item_env \<Rightarrow> thrown + StandardResponse) \<Rightarrow> item_env \<Rightarrow> StandardResponse" where
  "item_response cfg g request generateFn env =
     (case outcome_of cfg env g (generateFn request env) of
        Inr result \<Rightarrow> (uploadToStorageIfNeeded env result)\<lparr>createdAt := Some (toISOString env)\<rparr>
      | Inl e \<Rightarrow> errorResult e (toISOString_catch env))"

definition item_errors ::
  "ModelsConfig \<Rightarrow> string \<Rightarrow> ServiceRequest \<Rightarrow>
   (ServiceRequest \<Rightarrow> item_env \<Rightarrow> thrown + StandardResponse) \<Rightarrow> item_env \<Rightarrow> thrown list" where
  "item_errors cfg g request generateFn env =
     (case outcome_of cfg env g (generateFn request env) of Inr result \<Rightarrow> [] | Inl e \<Rightarrow> [e])"

text \<open>The response of a batch of \<open>n\<close> items.\<close>

definition response_of ::
  "ModelsConfig \<Rightarrow> string \<Rightarrow> ServiceRequest \<Rightarrow>
   (ServiceRequest \<Rightarrow> item_env \<Rightarrow> thrown + StandardResponse) \<Rightarrow> (nat \<Rightarrow> item_env) \<Rightarrow> int \<Rightarrow>
   GenerationResponse" where
  "response_of cfg g request generateFn envs n =
     \<lparr>results = map (\<lambda>j. item_response cfg g request generateFn (envs j)) [0..<nat n],
      metadata = Some
        \<lparr>totalRequested = n,
         successful = int (length (filter success
            (map (\<lambda>j. item_response cfg g request generateFn (envs j)) [0..<nat n]))),
         failed = int (length (concat
            (map (\<lambda>j. item_errors cfg g request generateFn (envs j)) [0..<nat n])))\<rparr>\<rparr>"

text \<open>The response of a batch whose \<open>n\<close> items all fail with the thrown value \<open>e\<close>, and the
  callbacks of a stream that ends with the response \<open>resp\<close>: one \<^verbatim>\<open>onProgress\<close> per result, in
  the order of the results, then \<^verbatim>\<open>onComplete\<close>.\<close>

definition failed_response :: "thrown \<Rightarrow> (nat \<Rightarrow> item_env) \<Rightarrow> int \<Rightarrow> GenerationResponse" where
  "failed_response e envs n =
     \<lparr>results = map (\<lambda>j. errorResult e (toISOString_catch (envs j))) [0..<nat n],
      metadata = Some \<lparr>totalRequested = n, successful = 0, failed = int (nat n)\<rparr>\<rparr>"

definition progress_then_complete :: "GenerationResponse \<Rightarrow> int \<Rightarrow> event list" where
  "progress_then_complete resp n =
     map (\<lambda>j. OnProgress (results resp ! j) (int j) n) [0..<nat n] @ [OnComplete resp]"

text \<open>Callbacks: \<open>never_throws\<close> when \<^verbatim>\<open>onProgress\<close> is absent or always returns;
  \<open>callbacks_return\<close> when \<^verbatim>\<open>onProgress\<close> and \<^verbatim>\<open>onComplete\<close> are both present and always
  return. \<open>finish_stream\<close> is the end of \<^verbatim>\<open>generateMultipleImagesStream\<close> after the loop
  (lines 246-261).\<close>

definition never_throws :: "StreamGenerationRequest \<Rightarrow> bool" where
  "never_throws sr =
     (case onProgress sr of None \<Rightarrow> True | Some f \<Rightarrow> \<forall>r i n. f r i n = None)"

definition callbacks_return :: "StreamGenerationRequest \<Rightarrow> bool" where
  "callbacks_return sr =
     ((case onProgress sr of None \<Rightarrow> False | Some f \<Rightarrow> \<forall>r i n. f r i n = None) \<and>
      (case onComplete sr of None \<Rightarrow> False | Some f \<Rightarrow> \<forall>resp. f resp = None))"

definition progress_events ::
  "StreamGenerationRequest \<Rightarrow> StandardResponse \<Rightarrow> int \<Rightarrow> int \<Rightarrow> event list" where
  "progress_events sr r i n = fst (call_onProgress sr r i n)"

definition finish_stream ::
  "StreamGenerationRequest \<Rightarrow> GenerationResponse \<Rightarrow> event list \<times> thrown option" where
  "finish_stream sr resp =
     (case call_onComplete sr resp of
        (evs, None) \<Rightarrow> (evs, None)
      | (evs, Some e) \<Rightarrow> (case call_onError sr e of (evs', thr) \<Rightarrow> (evs @ evs', thr)))"

section \<open>Example inputs\<close>

text \<open>A clock read every \<^verbatim>\<open>POLLING_INTERVAL\<close> milliseconds, a provider that answers, one that
  fails, a storage service that fails, a caller who is signed in and one who is not.\<close>

definition example_clock :: "nat \<Rightarrow> int" where
  "example_clock k = 1700000000000 + POLLING_INTERVAL * int k"

definition response_ok :: StandardResponse where
  "response_ok =
     \<lparr>success = True, message = None, imageUrl = Some ''https://provider.example/cat.png'',
      error = None, textPayload = None, createdAt = None\<rparr>"

definition upload_failed :: UploadResult where
  "upload_failed =
     \<lparr>upload_success = False, upload_url = None, upload_error = Some ''bucket not found''\<rparr>"

definition env_ok :: item_env where
  "env_ok =
     \<lparr>checkAuth = True, nows = example_clock, startNow = 1700000000000,
      gpt4o_generateImage = (\<lambda>k p. Inr response_ok),
      doubao_generateImage = (\<lambda>k s a p m. Inr response_ok),
      uploadImageFromUrl = (\<lambda>u. Inr upload_failed),
      toISOString = ''2025-07-18T08:00:00.000Z'',
      toISOString_catch = ''2025-07-18T08:00:00.000Z''\<rparr>"


definition env_unauth :: item_env where
  "env_unauth = env_ok\<lparr>checkAuth := False\<rparr>"

definition envs_ok :: "nat \<Rightarrow> item_env" where
  "envs_ok j = env_ok"

definition envs_unauth :: "nat \<Rightarrow> item_env" where
  "envs_unauth j = env_unauth"


definition callbacks_ok :: StreamGenerationRequest where
  "callbacks_ok =
     \<lparr>stream_count = None, onProgress = Some (\<lambda>r i n. None), onComplete = Some (\<lambda>resp. None),
      onError = Some (\<lambda>e. None)\<rparr>"

definition credentials_ok :: "ModelConfig option" where
  "credentials_ok =
     Some \<lparr>config_json =
       Some \<lparr>api_key = Some ''key'', api_secret = Some ''secret'', ark_api_key = None\<rparr>\<rparr>"

definition credentials_empty :: "ModelConfig option" where
  "credentials_empty = Some \<lparr>config_json = None\<rparr>"

definition request_of :: "int option \<Rightarrow> ServiceRequest" where
  "request_of c = \<lparr>prompt = ''a cat in a garden'', model = None, count = c\<rparr>"

text \<open>Three calls for the group \<^verbatim>\<open>doubao\<close> that have just called \<^verbatim>\<open>checkAuth()\<close>, and a
  schedule in which each of them is resumed once from line 122 and then once from line 127,
  all within the same millisecond.\<close>

definition three_doubao_calls :: "(string \<times> point) list" where
  "three_doubao_calls =
     [(''doubao'', AtCheckAuth), (''doubao'', AtCheckAuth), (''doubao'', AtCheckAuth)]"

definition race_schedule :: "(nat \<times> resume) list" where
  "race_schedule =
     [(0, AuthSettled True 1700000000000), (1, AuthSettled True 1700000000000),
      (2, AuthSettled True 1700000000000), (0, WaitReturned 1700000000000 False),
      (1, WaitReturned 1700000000000 False), (2, WaitReturned 1700000000000 False)]"


section \<open>The admission wait and one dispatch\<close>

text \<open>The lemmas of this section and of the next relate the functions of the model to the
  closed forms above; the claims follow from them.\<close>

declare generateMultipleImages_loop.simps [simp del]

declare generateMultipleImagesStream_loop.simps [simp del]

lemma wait_returns_aux:
  "getModelConfigByGroup cfg g = Some mc \<Longrightarrow> admissible mc L g (clock (k + d)) \<Longrightarrow>
   waitForServiceAvailability cfg L g clock k = Some (Inr ())"
proof (induction d arbitrary: k)
  case 0
  then show ?case by (subst waitForServiceAvailability.simps) simp
next
  case (Suc d)
  from Suc.prems have "admissible mc L g (clock (Suc k + d))" by simp
  with Suc.IH Suc.prems(1) have "waitForServiceAvailability cfg L g clock (Suc k) = Some (Inr ())" by blast
  with Suc.prems(1) show ?case by (subst waitForServiceAvailability.simps) simp
qed

lemma wait_returns:
  assumes "getModelConfigByGroup cfg g = Some mc" "getActiveRequests L g < maxConcurrent mc"
    "clock_unbounded clock"
  shows "waitForServiceAvailability cfg L g clock 0 = Some (Inr ())"
proof -
  from assms(3) obtain k where "cooldownMs mc + getLastRequestTime L g \<le> clock k"
    unfolding clock_unbounded_def by blast
  with assms(2) have "admissible mc L g (clock (0 + k))" by (simp add: admissible_def)
  with assms(1) show ?thesis by (rule wait_returns_aux)
qed

lemma wait_no_config:
  "getModelConfigByGroup cfg g = None \<Longrightarrow>
   waitForServiceAvailability cfg L g clock k = Some (Inl (TypeError_undefined ''maxConcurrent''))"
  by (subst waitForServiceAvailability.simps) simp

lemma initial_active [simp]: "getActiveRequests (initializeCounters cfg) g = 0"
  by (cases "configs cfg g") (simp_all add: getActiveRequests_def initializeCounters_def)

lemma active_begin_end [simp]:
  "getActiveRequests (endRequest (beginRequest L g now) g) g' = getActiveRequests L g'"
  by (simp add: getActiveRequests_def endRequest_def beginRequest_def)

lemma active_ledger_after [simp]:
  "getActiveRequests (ledger_after cfg env L g) g' = getActiveRequests L g'"
  by (simp add: ledger_after_def split: option.splits)


lemma can_proceed_ledger_after [simp]:
  "can_proceed cfg (ledger_after cfg env L g) g' env' = can_proceed cfg L g' env'"
  by (simp add: can_proceed_def has_room_def split: option.splits)

lemma active_ledger_after_items [simp]:
  "getActiveRequests (ledger_after_items cfg g envs L js) g' = getActiveRequests L g'"
  unfolding ledger_after_items_def by (induction js arbitrary: L) simp_all

lemma success_upload [simp]: "success (uploadToStorageIfNeeded env r) = success r"
  by (simp add: uploadToStorageIfNeeded_def split: option.splits sum.splits)

lemma upt_2: "[0..<2] = [0, 1]"
  by (simp add: upt_rec)


lemma executeRequest_char:
  assumes "can_proceed cfg L g env"
  shows "executeRequest cfg env L g requestFn =
           Some (ledger_after cfg env L g, outcome_of cfg env g requestFn)"
proof (cases "checkAuth env")
  case False
  then show ?thesis by (simp add: executeRequest_def ledger_after_def outcome_of_def)
next
  case True
  show ?thesis
  proof (cases "getModelConfigByGroup cfg g")
    case None
    with True show ?thesis
      by (simp add: executeRequest_def ledger_after_def outcome_of_def wait_no_config)
  next
    case (Some mc)
    with assms True have "waitForServiceAvailability cfg L g (nows env) 0 = Some (Inr ())"
      by (intro wait_returns[where mc = mc]) (simp_all add: can_proceed_def has_room_def)
    with Some True show ?thesis
      by (simp add: executeRequest_def ledger_after_def outcome_of_def)
  qed
qed

section \<open>The batch loops in closed form\<close>

text \<open>When every item can proceed, the loops return, and what they return is given by
  \<open>response_of\<close>, \<open>ledger_after_items\<close> and the callbacks of the items.\<close>

lemma item_char:
  assumes "can_proceed cfg L g env"
  shows "generateMultipleImages_item cfg g request generateFn env (L, errors, rs) =
           Some (ledger_after cfg env L g,
                 errors @ item_errors cfg g request generateFn env,
                 rs @ [item_response cfg g request generateFn env])"
  using executeRequest_char[OF assms, of "generateFn request env"]
  by (simp add: generateMultipleImages_item_def item_errors_def item_response_def split: sum.splits)

lemma loop_char:
  assumes "\<forall>j<nat n. can_proceed cfg L g (envs j)"
  shows "generateMultipleImages_loop cfg g request generateFn envs n i (L, errors, rs) =
           Some (ledger_after_items cfg g envs L [i..<nat n],
                 errors @ concat (map (\<lambda>j. item_errors cfg g request generateFn (envs j)) [i..<nat n]),
                 rs @ map (\<lambda>j. item_response cfg g request generateFn (envs j)) [i..<nat n])"
  using assms
proof (induction "nat n - i" arbitrary: i L errors rs)
  case 0
  then have "\<not> int i < n" by linarith
  moreover from 0 have "[i..<nat n] = []" by simp
  ultimately show ?case
    by (subst generateMultipleImages_loop.simps) (simp add: ledger_after_items_def)
next
  case (Suc d)
  then have lt: "int i < n" and lt': "i < nat n" by linarith+
  from lt' Suc.prems have ok: "can_proceed cfg L g (envs i)" by blast
  have upt: "[i..<nat n] = i # [Suc i..<nat n]" using lt' by (simp add: upt_conv_Cons)
  have d: "d = nat n - Suc i" using Suc.hyps(2) by linarith
  have ok': "\<forall>j<nat n. can_proceed cfg (ledger_after cfg (envs i) L g) g (envs j)"
    using Suc.prems by simp
  show ?case
    apply (subst generateMultipleImages_loop.simps)
    apply (simp only: lt if_True item_char[OF ok] option.case)
    apply (subst Suc.hyps(1)[OF d ok'])
    apply (simp add: upt ledger_after_items_def)
    done
qed

lemma generateMultipleImages_char:
  assumes "\<forall>j<nat (batch_count request). can_proceed cfg L g (envs j)"
  shows "generateMultipleImages cfg envs L g request generateFn =
     Some (ledger_after_items cfg g envs L [0..<nat (batch_count request)],
           response_of cfg g request generateFn envs (batch_count request))"
  unfolding generateMultipleImages_def response_of_def
  by (simp add: Let_def loop_char[OF assms])

lemma call_onProgress_quiet:
  "never_throws sr \<Longrightarrow> call_onProgress sr r i n = (progress_events sr r i n, None)"
  by (simp add: never_throws_def call_onProgress_def progress_events_def split: option.splits)

lemma stream_item_char:
  assumes "can_proceed cfg L g env" "never_throws sr"
  shows "generateMultipleImagesStream_item cfg g request generateFn sr env i n (L, errors, rs, evs) =
           Some ((ledger_after cfg env L g,
                  errors @ item_errors cfg g request generateFn env,
                  rs @ [item_response cfg g request generateFn env],
                  evs @ progress_events sr (item_response cfg g request generateFn env) i n), None)"
  using executeRequest_char[OF assms(1), of "generateFn request env"]
  by (simp add: generateMultipleImagesStream_item_def stream_catch_def item_errors_def
      item_response_def call_onProgress_quiet[OF assms(2)] Let_def split: sum.splits)

lemma stream_loop_char:
  assumes "\<forall>j<nat n. can_proceed cfg L g (envs j)" "never_throws sr"
  shows "generateMultipleImagesStream_loop cfg g request generateFn sr envs n i (L, errors, rs, evs) =
           Some ((ledger_after_items cfg g envs L [i..<nat n],
                  errors @ concat (map (\<lambda>j. item_errors cfg g request generateFn (envs j)) [i..<nat n]),
                  rs @ map (\<lambda>j. item_response cfg g request generateFn (envs j)) [i..<nat n],
                  evs @ concat (map (\<lambda>j. progress_events sr
                           (item_response cfg g request generateFn (envs j)) (int j) n) [i..<nat n])),
                 None)"
  using assms(1)
proof (induction "nat n - i" arbitrary: i L errors rs evs)
  case 0
  then have "\<not> int i < n" by linarith
  moreover from 0 have "[i..<nat n] = []" by simp
  ultimately show ?case
    by (subst generateMultipleImagesStream_loop.simps) (simp add: ledger_after_items_def)
next
  case (Suc d)
  then have lt: "int i < n" and lt': "i < nat n" by linarith+
  from lt' Suc.prems have ok: "can_proceed cfg L g (envs i)" by blast
  have upt: "[i..<nat n] = i # [Suc i..<nat n]" using lt' by (simp add: upt_conv_Cons)
  have d: "d = nat n - Suc i" using Suc.hyps(2) by linarith
  have ok': "\<forall>j<nat n. can_proceed cfg (ledger_after cfg (envs i) L g) g (envs j)"
    using Suc.prems by simp
  show ?case
    apply (subst generateMultipleImagesStream_loop.simps)
    apply (simp only: lt if_True stream_item_char[OF ok assms(2)] option.case prod.case)
    apply (subst Suc.hyps(1)[OF d ok'])
    apply (simp add: upt ledger_after_items_def)
    done
qed

lemma generateMultipleImagesStream_char:
  assumes "\<forall>j<nat (stream_batch_count sr request). can_proceed cfg L g (envs j)" "never_throws sr"
  shows "generateMultipleImagesStream cfg envs L g request generateFn sr =
     Some (ledger_after_items cfg g envs L [0..<nat (stream_batch_count sr request)],
           concat (map (\<lambda>j. progress_events sr (item_response cfg g request generateFn (envs j))
                     (int j) (stream_batch_count sr request))
                   [0..<nat (stream_batch_count sr request)])
           @ fst (finish_stream sr (response_of cfg g request generateFn envs (stream_batch_count sr request))),
           snd (finish_stream sr (response_of cfg g request generateFn envs (stream_batch_count sr request))))"
  unfolding generateMultipleImagesStream_def response_of_def finish_stream_def
  by (simp add: Let_def stream_loop_char[OF assms] split: prod.splits option.splits)

lemma callbacks_return_never_throws: "callbacks_return sr \<Longrightarrow> never_throws sr"
  by (simp add: callbacks_return_def never_throws_def split: option.splits)

lemma callbacks_return_progress:
  "callbacks_return sr \<Longrightarrow> progress_events sr r i n = [OnProgress r i n]"
  by (simp add: callbacks_return_def progress_events_def call_onProgress_def split: option.splits)

lemma callbacks_return_finish:
  "callbacks_return sr \<Longrightarrow> finish_stream sr resp = ([OnComplete resp], None)"
  by (simp add: callbacks_return_def finish_stream_def call_onComplete_def split: option.splits)

lemma stream_char_quiet:
  assumes "\<forall>j<nat (stream_batch_count sr request). can_proceed cfg L g (envs j)"
    and "callbacks_return sr"
  shows "generateMultipleImagesStream cfg envs L g request generateFn sr =
     Some (ledger_after_items cfg g envs L [0..<nat (stream_batch_count sr request)],
           map (\<lambda>j. OnProgress (item_response cfg g request generateFn (envs j)) (int j)
                       (stream_batch_count sr request))
               [0..<nat (stream_batch_count sr request)]
           @ [OnComplete (response_of cfg g request generateFn envs (stream_batch_count sr request))],
           None)"
  by (simp add: generateMultipleImagesStream_char[OF assms(1) callbacks_return_never_throws[OF assms(2)]]
      callbacks_return_progress[OF assms(2)] callbacks_return_finish[OF assms(2)])


section \<open>One call in the interleaving model\<close>

text \<open>A call leaves the polling loop only at a clock reading that passes the test, and a call
  that runs alone leaves the ledger that \<open>executeRequest\<close> leaves.\<close>

lemma poll_round_admits:
  "poll_round cfg L g now = AtWaitReturn \<Longrightarrow>
   \<exists>mc. getModelConfigByGroup cfg g = Some mc \<and> admissible mc L g now"
  by (auto simp: poll_round_def split: option.splits if_splits)

lemma run_alone:
  assumes "getModelConfigByGroup cfg g = Some mc" and "admissible mc L g now"
  shows "run cfg [(0, AuthSettled True now), (0, WaitReturned now' False), (0, RequestSettled)]
           (L, [(g, AtCheckAuth)]) =
         Some (endRequest (beginRequest L g now') g, [(g, Settled)])"
  using assms by (simp add: resume_task_def poll_round_def)

section \<open>The in-flight count after a dispatch and after a batch\<close>


lemma active_endRequest:
  "getActiveRequests (endRequest L g) g' =
     (if g' = g then getActiveRequests L g - 1 else getActiveRequests L g')"
  by (simp add: getActiveRequests_def endRequest_def)









section \<open>Batches whose items all fail\<close>

lemma response_of_all_fail:
  assumes "\<forall>j<nat n. outcome_of cfg (envs j) g (generateFn request (envs j)) = Inl e"
  shows "response_of cfg g request generateFn envs n = failed_response e envs n"
proof -
  have r: "map (\<lambda>j. item_response cfg g request generateFn (envs j)) [0..<nat n] =
           map (\<lambda>j. errorResult e (toISOString_catch (envs j))) [0..<nat n]"
    using assms by (intro map_cong) (auto simp: item_response_def)
  have e: "map (\<lambda>j. item_errors cfg g request generateFn (envs j)) [0..<nat n] =
           map (\<lambda>j. [e]) [0..<nat n]"
    using assms by (intro map_cong) (auto simp: item_errors_def)
  have f: "filter success (map (\<lambda>j. errorResult e (toISOString_catch (envs j))) [0..<nat n]) = []"
    by (simp add: filter_empty_conv errorResult_def)
  show ?thesis
    unfolding response_of_def failed_response_def r e f by simp
qed

lemma ledger_after_items_unauth:
  "\<forall>j\<in>set js. \<not> checkAuth (envs j) \<Longrightarrow> ledger_after_items cfg g envs L js = L"
  unfolding ledger_after_items_def
  by (induction js arbitrary: L) (simp_all add: ledger_after_def)

lemma progress_then_complete_response_of:
  "map (\<lambda>j. OnProgress (item_response cfg g request generateFn (envs j)) (int j) n) [0..<nat n]
     @ [OnComplete (response_of cfg g request generateFn envs n)] =
   progress_then_complete (response_of cfg g request generateFn envs n) n"
  by (simp add: progress_then_complete_def response_of_def)

lemma stream_char_events:
  assumes "\<forall>j<nat (stream_batch_count sr request). can_proceed cfg L g (envs j)"
    and "callbacks_return sr"
  shows "generateMultipleImagesStream cfg envs L g request generateFn sr =
     Some (ledger_after_items cfg g envs L [0..<nat (stream_batch_count sr request)],
           progress_then_complete
             (response_of cfg g request generateFn envs (stream_batch_count sr request))
             (stream_batch_count sr request), None)"
  by (simp only: stream_char_quiet[OF assms] progress_then_complete_response_of)

lemma all_fail_aggregate:
  assumes "\<forall>j<nat (batch_count request). can_proceed cfg L g (envs j)"
    and "\<forall>j<nat (batch_count request).
           outcome_of cfg (envs j) g (generateFn request (envs j)) = Inl e"
  shows "generateMultipleImages cfg envs L g request generateFn =
           Some (ledger_after_items cfg g envs L [0..<nat (batch_count request)],
                 failed_response e envs (batch_count request))"
  using response_of_all_fail[where cfg = cfg and envs = envs and g = g and generateFn = generateFn
      and request = request and e = e and n = "batch_count request"] assms(2)
  by (simp add: generateMultipleImages_char[OF assms(1)])

lemma all_fail_stream:
  assumes "\<forall>j<nat (stream_batch_count sr request). can_proceed cfg L g (envs j)"
    and "\<forall>j<nat (stream_batch_count sr request).
           outcome_of cfg (envs j) g (generateFn request (envs j)) = Inl e"
    and "callbacks_return sr"
  shows "generateMultipleImagesStream cfg envs L g request generateFn sr =
           Some (ledger_after_items cfg g envs L [0..<nat (stream_batch_count sr request)],
                 progress_then_complete (failed_response e envs (stream_batch_count sr request))
                   (stream_batch_count sr request), None)"
proof -
  have r: "response_of cfg g request generateFn envs (stream_batch_count sr request) =
           failed_response e envs (stream_batch_count sr request)"
    using assms(2) by (rule response_of_all_fail)
  show ?thesis
    apply (subst stream_char_events[OF assms(1,3)])
    apply (subst r)
    apply (rule refl)
    done
qed

lemma unauth_aggregate:
  assumes "\<forall>j. \<not> checkAuth (envs j)"
  shows "generateMultipleImages cfg envs L g request generateFn =
           Some (L, failed_response (Error ''AUTH_REQUIRED'') envs (batch_count request))"
proof -
  have "generateMultipleImages cfg envs L g request generateFn =
           Some (ledger_after_items cfg g envs L [0..<nat (batch_count request)],
                 failed_response (Error ''AUTH_REQUIRED'') envs (batch_count request))"
    using assms by (intro all_fail_aggregate) (simp_all add: can_proceed_def outcome_of_def)
  with assms show ?thesis by (simp add: ledger_after_items_unauth)
qed

lemma unauth_stream:
  assumes "\<forall>j. \<not> checkAuth (envs j)" and "callbacks_return sr"
  shows "generateMultipleImagesStream cfg envs L g request generateFn sr =
           Some (L, progress_then_complete
                      (failed_response (Error ''AUTH_REQUIRED'') envs (stream_batch_count sr request))
                      (stream_batch_count sr request), None)"
proof -
  have "generateMultipleImagesStream cfg envs L g request generateFn sr =
           Some (ledger_after_items cfg g envs L [0..<nat (stream_batch_count sr request)],
                 progress_then_complete
                   (failed_response (Error ''AUTH_REQUIRED'') envs (stream_batch_count sr request))
                   (stream_batch_count sr request), None)"
    using assms by (intro all_fail_stream) (simp_all add: can_proceed_def outcome_of_def)
  with assms show ?thesis by (simp add: ledger_after_items_unauth)
qed

lemma GPT4o_generateFn_no_key:
  "\<not> truthy_str (api_key_of modelConfig) \<Longrightarrow>
   GPT4o_generateFn modelConfig request env = Inl (Error msg_gpt4o_key)"
  by (simp add: GPT4o_generateFn_def)

lemma Doubao_generateFn_no_key:
  "\<not> (truthy_str (api_key_of modelConfig) \<and> truthy_str (api_secret_of modelConfig)) \<Longrightarrow>
   Doubao_generateFn modelConfig request env = Inl (Error msg_doubao_key)"
  by (auto simp: Doubao_generateFn_def)

lemma throwing_generateFn_aggregate:
  assumes "\<forall>j. checkAuth (envs j) \<and> clock_unbounded (nows (envs j))"
    and "getModelConfigByGroup cfg g = Some mc" and "getActiveRequests L g < maxConcurrent mc"
    and "\<forall>env. generateFn request env = Inl e"
  shows "\<exists>L'. generateMultipleImages cfg envs L g request generateFn =
           Some (L', failed_response e envs (batch_count request))"
proof -
  have "generateMultipleImages cfg envs L g request generateFn =
           Some (ledger_after_items cfg g envs L [0..<nat (batch_count request)],
                 failed_response e envs (batch_count request))"
    using assms
    by (intro all_fail_aggregate) (simp_all add: can_proceed_def has_room_def outcome_of_def)
  then show ?thesis ..
qed

lemma throwing_generateFn_stream:
  assumes "\<forall>j. checkAuth (envs j) \<and> clock_unbounded (nows (envs j))"
    and "getModelConfigByGroup cfg g = Some mc" and "getActiveRequests L g < maxConcurrent mc"
    and "\<forall>env. generateFn request env = Inl e" and "callbacks_return sr"
  shows "\<exists>L'. generateMultipleImagesStream cfg envs L g request generateFn sr =
           Some (L', progress_then_complete
                       (failed_response e envs (stream_batch_count sr request))
                       (stream_batch_count sr request), None)"
proof -
  have "generateMultipleImagesStream cfg envs L g request generateFn sr =
           Some (ledger_after_items cfg g envs L [0..<nat (stream_batch_count sr request)],
                 progress_then_complete
                       (failed_response e envs (stream_batch_count sr request))
                       (stream_batch_count sr request), None)"
    using assms
    by (intro all_fail_stream) (simp_all add: can_proceed_def has_room_def outcome_of_def)
  then show ?thesis ..
qed

section \<open>The count of a request\<close>

text \<open>The batch functions read the request through \<^verbatim>\<open>generateFn\<close> and through the count
  only, and the two provider functions do not read the count.\<close>

lemma item_request_cong:
  "generateFn request = generateFn request' \<Longrightarrow>
   generateMultipleImages_item cfg g request generateFn env acc =
   generateMultipleImages_item cfg g request' generateFn env acc"
  by (simp add: generateMultipleImages_item_def)

lemma loop_request_cong:
  assumes "generateFn request = generateFn request'"
  shows "generateMultipleImages_loop cfg g request generateFn envs n i acc =
         generateMultipleImages_loop cfg g request' generateFn envs n i acc"
proof (induction "nat n - i" arbitrary: i acc)
  case 0
  then have "\<not> int i < n" by linarith
  then show ?case
    by (simp add: generateMultipleImages_loop.simps[of _ _ _ _ _ n i])
next
  case (Suc d)
  have d: "d = nat n - Suc i" using Suc.hyps(2) by linarith
  show ?case
    by (simp add: generateMultipleImages_loop.simps[of _ _ _ _ _ n i]
        item_request_cong[OF assms] Suc.hyps(1)[OF d] cong: option.case_cong)
qed

lemma stream_item_request_cong:
  "generateFn request = generateFn request' \<Longrightarrow>
   generateMultipleImagesStream_item cfg g request generateFn sr env i n acc =
   generateMultipleImagesStream_item cfg g request' generateFn sr env i n acc"
  by (simp add: generateMultipleImagesStream_item_def)

lemma stream_loop_request_cong:
  assumes "generateFn request = generateFn request'"
  shows "generateMultipleImagesStream_loop cfg g request generateFn sr envs n i acc =
         generateMultipleImagesStream_loop cfg g request' generateFn sr envs n i acc"
proof (induction "nat n - i" arbitrary: i acc)
  case 0
  then have "\<not> int i < n" by linarith
  then show ?case
    by (simp add: generateMultipleImagesStream_loop.simps[of _ _ _ _ _ _ n i])
next
  case (Suc d)
  have d: "d = nat n - Suc i" using Suc.hyps(2) by linarith
  show ?case
    by (simp add: generateMultipleImagesStream_loop.simps[of _ _ _ _ _ _ n i]
        stream_item_request_cong[OF assms] Suc.hyps(1)[OF d]
        cong: option.case_cong prod.case_cong)
qed

lemma generateMultipleImages_request_cong:
  assumes "generateFn request = generateFn request'" and "batch_count request = batch_count request'"
  shows "generateMultipleImages cfg envs L g request generateFn =
         generateMultipleImages cfg envs L g request' generateFn"
  by (simp add: generateMultipleImages_def assms(2) loop_request_cong[OF assms(1)])

lemma generateMultipleImagesStream_request_cong:
  assumes "generateFn request = generateFn request'"
    and "stream_batch_count sr request = stream_batch_count sr request'"
  shows "generateMultipleImagesStream cfg envs L g request generateFn sr =
         generateMultipleImagesStream cfg envs L g request' generateFn sr"
  by (simp add: generateMultipleImagesStream_def assms(2) stream_loop_request_cong[OF assms(1)])

lemma generateFn_ignores_count:
  "GPT4o_generateFn modelConfig \<lparr>prompt = p, model = m, count = c\<rparr> =
   GPT4o_generateFn modelConfig \<lparr>prompt = p, model = m, count = c'\<rparr>"
  "Doubao_generateFn modelConfig \<lparr>prompt = p, model = m, count = c\<rparr> =
   Doubao_generateFn modelConfig \<lparr>prompt = p, model = m, count = c'\<rparr>"
  by (auto simp: GPT4o_generateFn_def Doubao_generateFn_def fun_eq_iff)

lemma zero_count_counts:
  "batch_count \<lparr>prompt = p, model = m, count = Some 0\<rparr> =
   batch_count \<lparr>prompt = p, model = m, count = None\<rparr>"
  "stream_batch_count sr \<lparr>prompt = p, model = m, count = Some 0\<rparr> =
   stream_batch_count sr \<lparr>prompt = p, model = m, count = None\<rparr>"
  by (simp_all add: batch_count_def stream_batch_count_def)

lemma zero_count_aggregate:
  "generateMultipleImages cfg envs L g \<lparr>prompt = p, model = m, count = Some 0\<rparr>
     (GPT4o_generateFn modelConfig) =
   generateMultipleImages cfg envs L g \<lparr>prompt = p, model = m, count = None\<rparr>
     (GPT4o_generateFn modelConfig)"
  "generateMultipleImages cfg envs L g \<lparr>prompt = p, model = m, count = Some 0\<rparr>
     (Doubao_generateFn modelConfig) =
   generateMultipleImages cfg envs L g \<lparr>prompt = p, model = m, count = None\<rparr>
     (Doubao_generateFn modelConfig)"
  by (rule generateMultipleImages_request_cong, rule generateFn_ignores_count,
      rule zero_count_counts)+

lemma zero_count_stream:
  "generateMultipleImagesStream cfg envs L g \<lparr>prompt = p, model = m, count = Some 0\<rparr>
     (GPT4o_generateFn modelConfig) sr =
   generateMultipleImagesStream cfg envs L g \<lparr>prompt = p, model = m, count = None\<rparr>
     (GPT4o_generateFn modelConfig) sr"
  "generateMultipleImagesStream cfg envs L g \<lparr>prompt = p, model = m, count = Some 0\<rparr>
     (Doubao_generateFn modelConfig) sr =
   generateMultipleImagesStream cfg envs L g \<lparr>prompt = p, model = m, count = None\<rparr>
     (Doubao_generateFn modelConfig) sr"
  by (rule generateMultipleImagesStream_request_cong, rule generateFn_ignores_count,
      rule zero_count_counts)+

section \<open>Facts about the example inputs\<close>

lemma clock_unbounded_example [simp]: "clock_unbounded example_clock"
  unfolding clock_unbounded_def example_clock_def POLLING_INTERVAL_def
proof
  fix T :: int
  have "T \<le> 1700000000000 + 100 * int (nat T)" by simp
  then show "\<exists>k. T \<le> 1700000000000 + 100 * int k" ..
qed

lemma has_room_initial:
  "has_room modelsConfig (initializeCounters modelsConfig) ''openai''"
  by (simp add: has_room_def modelsConfig_def initializeCounters_def getModelConfigByGroup_def
      getGroupConfig_def getActiveRequests_def)

lemma envs_unauth_never [simp]: "\<not> checkAuth (envs_unauth j)"
  by (simp add: envs_unauth_def env_unauth_def env_ok_def)

lemma callbacks_ok_return [simp]: "callbacks_return callbacks_ok"
  by (simp add: callbacks_return_def callbacks_ok_def)

lemma status_gpt_4o:
  "getModelStatus modelsConfig ''gpt_4o'' =
     \<lparr>available = True,
      status_model = Some \<lparr>model_id = ''gpt_4o'', category = ''OpenAI'', model_group = ''openai''\<rparr>,
      status_groupConfig = Some \<lparr>maxConcurrent = 2, cooldownMs = 1000\<rparr>,
      status_error = None\<rparr>"
  by (simp add: getModelStatus_def getModelById_def getModelConfigByGroup_def getGroupConfig_def
      modelsConfig_def)



lemma envs_ok_auth_clock: "checkAuth (envs_ok j) \<and> clock_unbounded (nows (envs_ok j))"
  by (simp add: envs_ok_def env_ok_def)

lemma shipped_group_config:
  "getModelConfigByGroup modelsConfig ''openai'' = Some \<lparr>maxConcurrent = 2, cooldownMs = 1000\<rparr>"
  "getModelConfigByGroup modelsConfig ''doubao'' = Some \<lparr>maxConcurrent = 2, cooldownMs = 1000\<rparr>"
  by (simp_all add: getModelConfigByGroup_def getGroupConfig_def modelsConfig_def)


lemma envs_ok_can_proceed:
  "can_proceed modelsConfig (initializeCounters modelsConfig) ''openai'' (envs_ok j)"
  by (simp add: can_proceed_def has_room_initial envs_ok_def env_ok_def)

section \<open>Completeness and order of a batch\<close>



section \<open>Admission under interleaving\<close>

text \<open>
  C2 says that a dispatch of a group begins only while the group is below \<^verbatim>\<open>maxConcurrent\<close>
  and past its cooldown, so that never more than \<^verbatim>\<open>maxConcurrent\<close> dispatches of the group are
  in flight and two of them never start less than \<^verbatim>\<open>cooldownMs\<close> apart. The code breaks this
  at the following run. Three calls for the group \<^verbatim>\<open>doubao\<close> of the shipped configuration
  (\<^verbatim>\<open>maxConcurrent\<close> 2, \<^verbatim>\<open>cooldownMs\<close> 1000) start on the fresh ledger. Each passes the test of the polling loop in
  its first round, before any of them has reached lines 130-131; then each runs lines 130-131.
  Afterwards three dispatches of the group are in flight, \<^verbatim>\<open>getActiveRequests\<close> returns 3, and
  the three dispatches have started at the same clock reading.
\<close>

theorem admission_race_exceeds_maxConcurrent:
  "observe modelsConfig race_schedule (initializeCounters modelsConfig, three_doubao_calls) ''doubao''
     = Some (3, 1700000000000, 3) \<and>
   getModelConfigByGroup modelsConfig ''doubao'' = Some \<lparr>maxConcurrent = 2, cooldownMs = 1000\<rparr>"
  by (simp add: observe_def race_schedule_def three_doubao_calls_def resume_task_def modelsConfig_def
      initializeCounters_def poll_round_def getModelConfigByGroup_def getGroupConfig_def
      admissible_def getActiveRequests_def getLastRequestTime_def beginRequest_def endRequest_def)

section \<open>Unauthenticated callers\<close>

text \<open>
  C3, as stated, fails: for a caller who is not signed in, \<^verbatim>\<open>generateImage\<close> with count 2 is not
  rejected; it returns a response with two failed results. \<^verbatim>\<open>generateImageStream\<close> calls
  \<^verbatim>\<open>onProgress\<close> twice and \<^verbatim>\<open>onComplete\<close> once, and never \<^verbatim>\<open>onError\<close>.
\<close>

theorem unauthenticated_call_resolves_counterexample:
  "generateImage modelsConfig envs_unauth (initializeCounters modelsConfig) ''gpt_4o''
       (request_of (Some 2)) credentials_ok =
     Some (initializeCounters modelsConfig,
           Inr \<lparr>results = [errorResult (Error ''AUTH_REQUIRED'') ''2025-07-18T08:00:00.000Z'',
                           errorResult (Error ''AUTH_REQUIRED'') ''2025-07-18T08:00:00.000Z''],
                metadata = Some \<lparr>totalRequested = 2, successful = 0, failed = 2\<rparr>\<rparr>) \<and>
   generateImageStream modelsConfig envs_unauth (initializeCounters modelsConfig) ''gpt_4o''
       (request_of (Some 2)) callbacks_ok credentials_ok =
     Some (initializeCounters modelsConfig,
           [OnProgress (errorResult (Error ''AUTH_REQUIRED'') ''2025-07-18T08:00:00.000Z'') 0 2,
            OnProgress (errorResult (Error ''AUTH_REQUIRED'') ''2025-07-18T08:00:00.000Z'') 1 2,
            OnComplete
              \<lparr>results = [errorResult (Error ''AUTH_REQUIRED'') ''2025-07-18T08:00:00.000Z'',
                           errorResult (Error ''AUTH_REQUIRED'') ''2025-07-18T08:00:00.000Z''],
               metadata = Some \<lparr>totalRequested = 2, successful = 0, failed = 2\<rparr>\<rparr>],
           None)"
proof -
  have c2: "batch_count \<lparr>prompt = prompt (request_of (Some 2)), model = None,
                         count = count (request_of (Some 2))\<rparr> = 2"
    by (simp add: batch_count_def request_of_def)
  have s2: "stream_batch_count callbacks_ok
              \<lparr>prompt = prompt (request_of (Some 2)), model = None,
               count = count (request_of (Some 2))\<rparr> = 2"
    by (simp add: stream_batch_count_def request_of_def callbacks_ok_def)
  have fr: "failed_response (Error ''AUTH_REQUIRED'') envs_unauth 2 =
      \<lparr>results = [errorResult (Error ''AUTH_REQUIRED'') ''2025-07-18T08:00:00.000Z'',
                   errorResult (Error ''AUTH_REQUIRED'') ''2025-07-18T08:00:00.000Z''],
       metadata = Some \<lparr>totalRequested = 2, successful = 0, failed = 2\<rparr>\<rparr>"
    by (simp add: failed_response_def upt_2 envs_unauth_def env_unauth_def env_ok_def)
  show ?thesis
    by (simp add: generateImage_def generateImageStream_def status_gpt_4o
        generateImageWithGPT4o_def generateImageWithGPT4oStream_def
        unauth_aggregate unauth_stream c2 s2 fr progress_then_complete_def upt_2)
qed

text \<open>
  C3, amended. When the caller is not authenticated, every dispatch throws \<^verbatim>\<open>AUTH_REQUIRED\<close>
  before the admission wait and leaves the ledger as it is; the batch loop turns it into a
  failed result of the item. The aggregate call returns one failed result per requested item
  (none successful, all failed); the stream call, with callbacks that return, calls
  \<^verbatim>\<open>onProgress\<close> once per item with these results and then \<^verbatim>\<open>onComplete\<close>.
\<close>

theorem unauthenticated_batch_fails_item_by_item:
  assumes "\<forall>j. \<not> checkAuth (envs j)" and "callbacks_return sr"
  shows "executeRequest cfg (envs i) L g requestFn = Some (L, Inl (Error ''AUTH_REQUIRED'')) \<and>
     generateMultipleImages cfg envs L g request generateFn =
       Some (L, failed_response (Error ''AUTH_REQUIRED'') envs (batch_count request)) \<and>
     generateMultipleImagesStream cfg envs L g request generateFn sr =
       Some (L, progress_then_complete
                  (failed_response (Error ''AUTH_REQUIRED'') envs (stream_batch_count sr request))
                  (stream_batch_count sr request), None)"
  using assms unauth_aggregate[OF assms(1)] unauth_stream[OF assms]
  by (simp add: executeRequest_def)

text \<open>C3, amended, at a batch of two items for a caller who is not signed in.\<close>

theorem unauthenticated_batch_fails_item_by_item_witness:
  "(\<forall>j. \<not> checkAuth (envs_unauth j)) \<and> callbacks_return callbacks_ok \<and>
   executeRequest modelsConfig (envs_unauth 0) (initializeCounters modelsConfig) ''openai''
       (gpt4o_generateImage (envs_unauth 0) ''key'' ''a cat in a garden'') =
     Some (initializeCounters modelsConfig, Inl (Error ''AUTH_REQUIRED'')) \<and>
   generateMultipleImages modelsConfig envs_unauth (initializeCounters modelsConfig) ''openai''
       (request_of (Some 2)) (GPT4o_generateFn credentials_ok) =
     Some (initializeCounters modelsConfig,
           failed_response (Error ''AUTH_REQUIRED'') envs_unauth 2) \<and>
   generateMultipleImagesStream modelsConfig envs_unauth (initializeCounters modelsConfig) ''openai''
       (request_of (Some 2)) (GPT4o_generateFn credentials_ok) callbacks_ok =
     Some (initializeCounters modelsConfig,
           progress_then_complete (failed_response (Error ''AUTH_REQUIRED'') envs_unauth 2) 2, None)"
proof -
  have h1: "\<forall>j. \<not> checkAuth (envs_unauth j)" by simp
  have h2: "callbacks_return callbacks_ok" by simp
  have c2: "batch_count (request_of (Some 2)) = 2"
    by (simp add: batch_count_def request_of_def)
  have s2: "stream_batch_count callbacks_ok (request_of (Some 2)) = 2"
    by (simp add: stream_batch_count_def request_of_def callbacks_ok_def)
  from unauthenticated_batch_fails_item_by_item[OF h1 h2, of modelsConfig 0
      "initializeCounters modelsConfig" "''openai''"
      "gpt4o_generateImage (envs_unauth 0) ''key'' ''a cat in a garden''"
      "request_of (Some 2)" "GPT4o_generateFn credentials_ok"] h1 h2
  show ?thesis by (simp add: c2 s2)
qed

section \<open>Missing credentials\<close>

text \<open>
  C4. For an authenticated caller and a provider group with room, a call of the GPT4o entry
  points without a usable \<^verbatim>\<open>api_key\<close>, or of the Doubao entry points without a usable
  \<^verbatim>\<open>api_key\<close> and \<^verbatim>\<open>api_secret\<close>, is not aborted: it returns the response whose results are
  one failed result per requested item, each with the provider's missing-credential message as
  its error (the last two conjuncts say so of \<open>failed_response\<close>).
\<close>

theorem missing_credentials_fail_each_item:
  assumes "\<forall>j. checkAuth (envs j) \<and> clock_unbounded (nows (envs j))"
    and "getModelConfigByGroup cfg ''openai'' = Some oc"
    and "getActiveRequests L ''openai'' < maxConcurrent oc"
    and "getModelConfigByGroup cfg ''doubao'' = Some dc"
    and "getActiveRequests L ''doubao'' < maxConcurrent dc"
    and "callbacks_return sr"
  shows "(\<not> truthy_str (api_key_of modelConfig) \<longrightarrow>
      (\<exists>L'. generateImageWithGPT4o cfg envs L request modelConfig =
         Some (L', failed_response (Error msg_gpt4o_key) envs (batch_count request))) \<and>
      (\<exists>L'. generateImageWithGPT4oStream cfg envs L request sr modelConfig =
         Some (L', progress_then_complete
                     (failed_response (Error msg_gpt4o_key) envs (stream_batch_count sr request))
                     (stream_batch_count sr request), None))) \<and>
    (\<not> (truthy_str (api_key_of modelConfig) \<and> truthy_str (api_secret_of modelConfig)) \<longrightarrow>
      (\<exists>L'. generateImageWithDoubao cfg envs L request modelConfig =
         Some (L', failed_response (Error msg_doubao_key) envs (batch_count request))) \<and>
      (\<exists>L'. generateImageWithDoubaoStream cfg envs L request sr modelConfig =
         Some (L', progress_then_complete
                     (failed_response (Error msg_doubao_key) envs (stream_batch_count sr request))
                     (stream_batch_count sr request), None))) \<and>
    length (results (failed_response e envs (batch_count request))) = nat (batch_count request) \<and>
    (\<forall>r \<in> set (results (failed_response (Error msg) envs n)).
       \<not> success r \<and> error r = Some msg)"
proof -
  have g: "\<not> truthy_str (api_key_of modelConfig) \<Longrightarrow>
      \<forall>env. GPT4o_generateFn modelConfig request env = Inl (Error msg_gpt4o_key)"
    by (simp add: GPT4o_generateFn_no_key)
  have d: "\<not> (truthy_str (api_key_of modelConfig) \<and> truthy_str (api_secret_of modelConfig)) \<Longrightarrow>
      \<forall>env. Doubao_generateFn modelConfig request env = Inl (Error msg_doubao_key)"
    by (simp add: Doubao_generateFn_no_key)
  note ga = throwing_generateFn_aggregate[where generateFn = "GPT4o_generateFn modelConfig"
      and request = request and e = "Error msg_gpt4o_key", OF assms(1,2,3)]
  note gs = throwing_generateFn_stream[where generateFn = "GPT4o_generateFn modelConfig"
      and request = request and e = "Error msg_gpt4o_key", OF assms(1,2,3) _ assms(6)]
  note da = throwing_generateFn_aggregate[where generateFn = "Doubao_generateFn modelConfig"
      and request = request and e = "Error msg_doubao_key", OF assms(1,4,5)]
  note ds = throwing_generateFn_stream[where generateFn = "Doubao_generateFn modelConfig"
      and request = request and e = "Error msg_doubao_key", OF assms(1,4,5) _ assms(6)]
  show ?thesis
    unfolding generateImageWithGPT4o_def generateImageWithGPT4oStream_def
      generateImageWithDoubao_def generateImageWithDoubaoStream_def
    using ga gs da ds g d
    by (auto simp: failed_response_def errorResult_def)
qed

text \<open>C4 at a batch of two items with credentials that have no \<^verbatim>\<open>config_json\<close>.\<close>

theorem missing_credentials_fail_each_item_witness:
  "(\<forall>j. checkAuth (envs_ok j) \<and> clock_unbounded (nows (envs_ok j))) \<and>
   getModelConfigByGroup modelsConfig ''openai'' = Some \<lparr>maxConcurrent = 2, cooldownMs = 1000\<rparr> \<and>
   getActiveRequests (initializeCounters modelsConfig) ''openai''
     < maxConcurrent \<lparr>maxConcurrent = 2, cooldownMs = 1000\<rparr> \<and>
   getModelConfigByGroup modelsConfig ''doubao'' = Some \<lparr>maxConcurrent = 2, cooldownMs = 1000\<rparr> \<and>
   getActiveRequests (initializeCounters modelsConfig) ''doubao''
     < maxConcurrent \<lparr>maxConcurrent = 2, cooldownMs = 1000\<rparr> \<and>
   callbacks_return callbacks_ok \<and>
   \<not> truthy_str (api_key_of credentials_empty) \<and>
   (\<exists>L'. generateImageWithGPT4o modelsConfig envs_ok (initializeCounters modelsConfig)
            (request_of (Some 2)) credentials_empty =
          Some (L', failed_response (Error msg_gpt4o_key) envs_ok 2)) \<and>
   (\<exists>L'. generateImageWithDoubaoStream modelsConfig envs_ok (initializeCounters modelsConfig)
            (request_of (Some 2)) callbacks_ok credentials_empty =
          Some (L', progress_then_complete (failed_response (Error msg_doubao_key) envs_ok 2) 2,
                None)) \<and>
   length (results (failed_response (Error msg_gpt4o_key) envs_ok 2)) = 2"
proof -
  have h1: "\<forall>j. checkAuth (envs_ok j) \<and> clock_unbounded (nows (envs_ok j))"
    by (simp add: envs_ok_auth_clock)
  note h2 = shipped_group_config(1)
  have h3: "getActiveRequests (initializeCounters modelsConfig) ''openai''
     < maxConcurrent \<lparr>maxConcurrent = 2, cooldownMs = 1000\<rparr>" by simp
  note h4 = shipped_group_config(2)
  have h5: "getActiveRequests (initializeCounters modelsConfig) ''doubao''
     < maxConcurrent \<lparr>maxConcurrent = 2, cooldownMs = 1000\<rparr>" by simp
  have h6: "callbacks_return callbacks_ok" by simp
  have k: "\<not> truthy_str (api_key_of credentials_empty)"
    by (simp add: api_key_of_def credentials_empty_def)
  have c2: "batch_count (request_of (Some 2)) = 2"
    by (simp add: batch_count_def request_of_def)
  have s2: "stream_batch_count callbacks_ok (request_of (Some 2)) = 2"
    by (simp add: stream_batch_count_def request_of_def callbacks_ok_def)
  from missing_credentials_fail_each_item[OF h1 h2 h3 h4 h5 h6,
      where modelConfig = credentials_empty and request = "request_of (Some 2)"
        and e = "Error msg_gpt4o_key"]
    h1 h2 h3 h4 h5 h6 k
  show ?thesis by (simp add: c2 s2)
qed

section \<open>The in-flight count\<close>



section \<open>Re-hosting\<close>

text \<open>
  C6. For an adapter result with \<^verbatim>\<open>success = true\<close> and a non-empty image URL \<open>X\<close>, the result
  of \<^verbatim>\<open>uploadToStorageIfNeeded\<close> is still a success. When the storage call throws, or returns
  without both \<^verbatim>\<open>success\<close> and a URL, the image URL is still \<open>X\<close> and a non-empty note is
  appended to the message; when it returns a durable URL, that URL replaces \<open>X\<close>. The batch
  loops emit this result with \<^verbatim>\<open>createdAt\<close> set.
\<close>

theorem rehosting_keeps_or_replaces_url:
  assumes "success result" and "imageUrl result = Some X" and "X \<noteq> []"
  shows "success (uploadToStorageIfNeeded env result) \<and>
    (\<forall>e. uploadImageFromUrl env X = Inl e \<longrightarrow>
       imageUrl (uploadToStorageIfNeeded env result) = Some X \<and>
       message (uploadToStorageIfNeeded env result) =
         Some (or_str (message result) [] @ note_upload_exception)) \<and>
    (\<forall>u. uploadImageFromUrl env X = Inr u \<and>
         \<not> (upload_success u \<and> truthy_str (upload_url u)) \<longrightarrow>
       imageUrl (uploadToStorageIfNeeded env result) = Some X \<and>
       message (uploadToStorageIfNeeded env result) =
         Some (or_str (message result) [] @ note_upload_failed)) \<and>
    (\<forall>u D. uploadImageFromUrl env X = Inr u \<and> upload_success u \<and> upload_url u = Some D \<and> D \<noteq> [] \<longrightarrow>
       imageUrl (uploadToStorageIfNeeded env result) = Some D) \<and>
    note_upload_exception \<noteq> [] \<and> note_upload_failed \<noteq> []"
  using assms
  by (auto simp: uploadToStorageIfNeeded_def note_upload_exception_def note_upload_failed_def
      split: sum.splits)

text \<open>C6 at a provider result whose upload is refused by the storage service.\<close>

theorem rehosting_keeps_or_replaces_url_witness:
  "success response_ok \<and> imageUrl response_ok = Some ''https://provider.example/cat.png'' \<and>
   ''https://provider.example/cat.png'' \<noteq> [] \<and>
   uploadImageFromUrl env_ok ''https://provider.example/cat.png'' = Inr upload_failed \<and>
   \<not> upload_success upload_failed \<and>
   success (uploadToStorageIfNeeded env_ok response_ok) \<and>
   imageUrl (uploadToStorageIfNeeded env_ok response_ok) = Some ''https://provider.example/cat.png'' \<and>
   message (uploadToStorageIfNeeded env_ok response_ok) = Some note_upload_failed"
proof -
  have h1: "success response_ok" by (simp add: response_ok_def)
  have h2: "imageUrl response_ok = Some ''https://provider.example/cat.png''"
    by (simp add: response_ok_def)
  have h3: "''https://provider.example/cat.png'' \<noteq> []" by simp
  have h4: "uploadImageFromUrl env_ok ''https://provider.example/cat.png'' = Inr upload_failed"
    by (simp add: env_ok_def)
  have h5: "\<not> upload_success upload_failed" by (simp add: upload_failed_def)
  have h6: "or_str (message response_ok) [] = []" by (simp add: response_ok_def)
  from rehosting_keeps_or_replaces_url[OF h1 h2 h3, of env_ok] h1 h2 h3 h4 h5 h6
  show ?thesis by simp
qed

section \<open>Groups without a service\<close>

text \<open>
  C7. For a model of one of the three groups without a service (\<^verbatim>\<open>cogview\<close>, \<^verbatim>\<open>tongyi\<close>,
  \<^verbatim>\<open>jimeng\<close>), \<^verbatim>\<open>generateImage\<close> is rejected with the error "<category> model group is not
  supported yet" and \<^verbatim>\<open>generateImageStream\<close> calls \<^verbatim>\<open>onError\<close> with it and nothing else. The
  ledger is the one before the call, and the result does not depend on what the providers
  would answer: no adapter is called.
\<close>

theorem stub_groups_reject_without_dispatch:
  assumes "getModelById cfg modelId = Some m"
    and "getGroupConfig cfg (model_group m) = Some gc"
    and "model_group m = ''cogview'' \<or> model_group m = ''tongyi'' \<or> model_group m = ''jimeng''"
    and "onError streamRequest = Some f"
  shows "generateImage cfg envs L modelId request modelConfig =
           Some (L, Inl (Error (msg_not_yet_supported (category m)))) \<and>
         generateImageStream cfg envs L modelId request streamRequest modelConfig =
           Some (L, [OnError (Error (msg_not_yet_supported (category m)))],
                 f (Error (msg_not_yet_supported (category m))))"
  using assms
  by (auto simp: generateImage_def generateImageStream_def getModelStatus_def
      getModelConfigByGroup_def call_onError_def)

text \<open>C7 at the CogView model of the shipped configuration.\<close>

theorem stub_groups_reject_without_dispatch_witness:
  "getModelById modelsConfig ''cogView-4-250304'' =
     Some \<lparr>model_id = ''cogView-4-250304'', category = cat_zhipu, model_group = ''cogview''\<rparr> \<and>
   getGroupConfig modelsConfig ''cogview'' = Some \<lparr>maxConcurrent = 2, cooldownMs = 1000\<rparr> \<and>
   onError callbacks_ok = Some (\<lambda>e. None) \<and>
   generateImage modelsConfig envs_ok (initializeCounters modelsConfig) ''cogView-4-250304''
       (request_of (Some 2)) credentials_ok =
     Some (initializeCounters modelsConfig, Inl (Error (msg_not_yet_supported cat_zhipu))) \<and>
   generateImageStream modelsConfig envs_ok (initializeCounters modelsConfig) ''cogView-4-250304''
       (request_of (Some 2)) callbacks_ok credentials_ok =
     Some (initializeCounters modelsConfig, [OnError (Error (msg_not_yet_supported cat_zhipu))], None)"
proof -
  let ?m = "\<lparr>model_id = ''cogView-4-250304'', category = cat_zhipu, model_group = ''cogview''\<rparr>"
  have h1: "getModelById modelsConfig ''cogView-4-250304'' = Some ?m"
    by (simp add: getModelById_def modelsConfig_def)
  have h2: "getGroupConfig modelsConfig (model_group ?m) = Some \<lparr>maxConcurrent = 2, cooldownMs = 1000\<rparr>"
    by (simp add: getGroupConfig_def modelsConfig_def)
  have h3: "model_group ?m = ''cogview'' \<or> model_group ?m = ''tongyi'' \<or> model_group ?m = ''jimeng''"
    by simp
  have h4: "onError callbacks_ok = Some (\<lambda>e. None)" by (simp add: callbacks_ok_def)
  from stub_groups_reject_without_dispatch[OF h1 h2 h3 h4,
      of envs_ok "initializeCounters modelsConfig" "request_of (Some 2)" credentials_ok] h1 h2 h4
  show ?thesis by simp
qed

section \<open>A stream of three items\<close>



section \<open>Registry lookups\<close>




section \<open>A count of zero\<close>

text \<open>
  C10. A request with count 0 gives the same result as the request without a count, in
  \<^verbatim>\<open>generateImage\<close> and in \<^verbatim>\<open>generateImageStream\<close>. When the single item can proceed, the
  aggregate batch with count 0 returns one result and \<^verbatim>\<open>totalRequested = 1\<close>; so does the
  stream batch when the stream request has no count of its own or the count 0.
\<close>

theorem zero_count_is_default_count:
  "generateImage cfg envs L modelId (request\<lparr>count := Some 0\<rparr>) modelConfig =
     generateImage cfg envs L modelId (request\<lparr>count := None\<rparr>) modelConfig \<and>
   generateImageStream cfg envs L modelId (request\<lparr>count := Some 0\<rparr>) streamRequest modelConfig =
     generateImageStream cfg envs L modelId (request\<lparr>count := None\<rparr>) streamRequest modelConfig \<and>
   (count request = Some 0 \<and> can_proceed cfg L g (envs 0) \<longrightarrow>
      generateMultipleImages cfg envs L g request generateFn =
        Some (ledger_after cfg (envs 0) L g, response_of cfg g request generateFn envs 1) \<and>
      results (response_of cfg g request generateFn envs 1) =
        [item_response cfg g request generateFn (envs 0)] \<and>
      map_option totalRequested (metadata (response_of cfg g request generateFn envs 1)) = Some 1) \<and>
   (count request = Some 0 \<and> (stream_count sr = None \<or> stream_count sr = Some 0) \<and>
    can_proceed cfg L g (envs 0) \<and> callbacks_return sr \<longrightarrow>
      generateMultipleImagesStream cfg envs L g request generateFn sr =
        Some (ledger_after cfg (envs 0) L g,
              [OnProgress (item_response cfg g request generateFn (envs 0)) 0 1,
               OnComplete (response_of cfg g request generateFn envs 1)], None))"
proof -
  have a: "generateImage cfg envs L modelId (request\<lparr>count := Some 0\<rparr>) modelConfig =
     generateImage cfg envs L modelId (request\<lparr>count := None\<rparr>) modelConfig"
    unfolding generateImage_def generateImageWithGPT4o_def generateImageWithDoubao_def
    by (simp add: Let_def zero_count_aggregate cong: option.case_cong if_cong)
  have b: "generateImageStream cfg envs L modelId (request\<lparr>count := Some 0\<rparr>) streamRequest modelConfig =
     generateImageStream cfg envs L modelId (request\<lparr>count := None\<rparr>) streamRequest modelConfig"
    unfolding generateImageStream_def generateImageWithGPT4oStream_def
      generateImageWithDoubaoStream_def
    by (simp add: Let_def zero_count_stream cong: option.case_cong if_cong)
  have c: "count request = Some 0 \<Longrightarrow> can_proceed cfg L g (envs 0) \<Longrightarrow>
      generateMultipleImages cfg envs L g request generateFn =
        Some (ledger_after cfg (envs 0) L g, response_of cfg g request generateFn envs 1)"
  proof -
    assume z: "count request = Some 0" and ok: "can_proceed cfg L g (envs 0)"
    from z have bc: "batch_count request = 1" by (simp add: batch_count_def DEFAULT_COUNT_def)
    from ok have "\<forall>j<nat (batch_count request). can_proceed cfg L g (envs j)" by (simp add: bc)
    from generateMultipleImages_char[OF this] show ?thesis
      by (simp add: bc ledger_after_items_def)
  qed
  have d: "count request = Some 0 \<Longrightarrow> stream_count sr = None \<or> stream_count sr = Some 0 \<Longrightarrow>
      can_proceed cfg L g (envs 0) \<Longrightarrow> callbacks_return sr \<Longrightarrow>
      generateMultipleImagesStream cfg envs L g request generateFn sr =
        Some (ledger_after cfg (envs 0) L g,
              [OnProgress (item_response cfg g request generateFn (envs 0)) 0 1,
               OnComplete (response_of cfg g request generateFn envs 1)], None)"
  proof -
    assume z: "count request = Some 0" and zs: "stream_count sr = None \<or> stream_count sr = Some 0"
      and ok: "can_proceed cfg L g (envs 0)" and cb: "callbacks_return sr"
    from z zs have sc: "stream_batch_count sr request = 1"
      by (auto simp: stream_batch_count_def DEFAULT_COUNT_def)
    from ok have "\<forall>j<nat (stream_batch_count sr request). can_proceed cfg L g (envs j)"
      by (simp add: sc)
    from stream_char_quiet[OF this cb] show ?thesis
      by (simp add: sc ledger_after_items_def)
  qed
  have e: "results (response_of cfg g request generateFn envs 1) =
        [item_response cfg g request generateFn (envs 0)] \<and>
      map_option totalRequested (metadata (response_of cfg g request generateFn envs 1)) = Some 1"
    by (simp add: response_of_def)
  from a b c d e show ?thesis by blast
qed

text \<open>C10 at the GPT4o model of the shipped configuration.\<close>

theorem zero_count_is_default_count_witness:
  "generateImage modelsConfig envs_ok (initializeCounters modelsConfig) ''gpt_4o''
       ((request_of (Some 4))\<lparr>count := Some 0\<rparr>) credentials_ok =
     generateImage modelsConfig envs_ok (initializeCounters modelsConfig) ''gpt_4o''
       ((request_of (Some 4))\<lparr>count := None\<rparr>) credentials_ok \<and>
   count (request_of (Some 0)) = Some 0 \<and>
   (stream_count callbacks_ok = None \<or> stream_count callbacks_ok = Some 0) \<and>
   can_proceed modelsConfig (initializeCounters modelsConfig) ''openai'' (envs_ok 0) \<and>
   callbacks_return callbacks_ok \<and>
   generateMultipleImages modelsConfig envs_ok (initializeCounters modelsConfig) ''openai''
       (request_of (Some 0)) (GPT4o_generateFn credentials_ok) =
     Some (ledger_after modelsConfig (envs_ok 0) (initializeCounters modelsConfig) ''openai'',
           response_of modelsConfig ''openai'' (request_of (Some 0))
             (GPT4o_generateFn credentials_ok) envs_ok 1) \<and>
   map_option totalRequested
     (metadata (response_of modelsConfig ''openai'' (request_of (Some 0))
        (GPT4o_generateFn credentials_ok) envs_ok 1)) = Some 1 \<and>
   generateMultipleImagesStream modelsConfig envs_ok (initializeCounters modelsConfig) ''openai''
       (request_of (Some 0)) (GPT4o_generateFn credentials_ok) callbacks_ok =
     Some (ledger_after modelsConfig (envs_ok 0) (initializeCounters modelsConfig) ''openai'',
           [OnProgress (item_response modelsConfig ''openai'' (request_of (Some 0))
                          (GPT4o_generateFn credentials_ok) (envs_ok 0)) 0 1,
            OnComplete (response_of modelsConfig ''openai'' (request_of (Some 0))
                          (GPT4o_generateFn credentials_ok) envs_ok 1)], None)"
proof -
  have h1: "count (request_of (Some 0)) = Some 0" by (simp add: request_of_def)
  have h2: "stream_count callbacks_ok = None \<or> stream_count callbacks_ok = Some 0"
    by (simp add: callbacks_ok_def)
  note h3 = envs_ok_can_proceed[of 0]
  have h4: "callbacks_return callbacks_ok" by simp
  note t = zero_count_is_default_count[where cfg = modelsConfig and envs = envs_ok
      and L = "initializeCounters modelsConfig" and modelId = "''gpt_4o''"
      and request = "request_of (Some 0)" and modelConfig = credentials_ok
      and g = "''openai''" and generateFn = "GPT4o_generateFn credentials_ok"
      and sr = callbacks_ok and streamRequest = callbacks_ok]
  have r: "(request_of (Some 4))\<lparr>count := Some 0\<rparr> = (request_of (Some 0))\<lparr>count := Some 0\<rparr>"
    "(request_of (Some 4))\<lparr>count := None\<rparr> = (request_of (Some 0))\<lparr>count := None\<rparr>"
    by (simp_all add: request_of_def)
  from t h1 h2 h3 h4 show ?thesis unfolding r by blast
qed

end
